theory Spec2Isabelle
  imports Main "HOL-Library.Sublist"
begin

section \<open>Strings of the host language\<close>

text \<open>
  A JavaScript string is modelled as a \<open>char list\<close>. Case conversion is modelled on the
  ASCII letters and leaves every other character as it is; numbers that are interpolated
  into text are integers and print in decimal.
\<close>

text \<open>\<^verbatim>\<open>Array.prototype.join\<close>: no separator before the first or after the last element.\<close>

fun join :: "string \<Rightarrow> string list \<Rightarrow> string" where
  "join sep [] = []"
| "join sep [x] = x"
| "join sep (x # y # ys) = x @ sep @ join sep (y # ys)"

text \<open>\<^verbatim>\<open>String.prototype.split\<close> on a single separator character: the empty string
  splits into one empty word, adjacent separators give empty words.\<close>

fun split :: "char \<Rightarrow> string \<Rightarrow> string list" where
  "split d [] = [[]]"
| "split d (c # cs) =
     (if c = d then [] # split d cs
      else (case split d cs of [] \<Rightarrow> [[c]] | w # ws \<Rightarrow> (c # w) # ws))"

definition upper_table :: "(char \<times> char) list" where
  "upper_table = zip ''abcdefghijklmnopqrstuvwxyz'' ''ABCDEFGHIJKLMNOPQRSTUVWXYZ''"

definition lower_table :: "(char \<times> char) list" where
  "lower_table = zip ''ABCDEFGHIJKLMNOPQRSTUVWXYZ'' ''abcdefghijklmnopqrstuvwxyz''"

definition toUpperChar :: "char \<Rightarrow> char" where
  "toUpperChar c = (case map_of upper_table c of Some u \<Rightarrow> u | None \<Rightarrow> c)"

definition toLowerChar :: "char \<Rightarrow> char" where
  "toLowerChar c = (case map_of lower_table c of Some l \<Rightarrow> l | None \<Rightarrow> c)"

definition toUpperCase :: "string \<Rightarrow> string" where
  "toUpperCase s = map toUpperChar s"

definition toLowerCase :: "string \<Rightarrow> string" where
  "toLowerCase s = map toLowerChar s"

text \<open>\<^verbatim>\<open>str.charAt(0)\<close> is the empty string on the empty string; \<^verbatim>\<open>str.slice(1)\<close> is the rest.\<close>

definition charAt0 :: "string \<Rightarrow> string" where
  "charAt0 s = take 1 s"

definition slice1 :: "string \<Rightarrow> string" where
  "slice1 s = drop 1 s"

text \<open>Decimal text of an integer, as a template literal prints an integral number.\<close>

definition digit_char :: "nat \<Rightarrow> char" where
  "digit_char d = (''0123456789'' ! (d mod 10))"

function show_nat :: "nat \<Rightarrow> string" where
  "show_nat n = (if n < 10 then [digit_char n] else show_nat (n div 10) @ [digit_char (n mod 10)])"
  by pat_completeness auto
termination
  by (relation "measure (\<lambda>n. n)") auto

declare show_nat.simps [simp del]

definition show_int :: "int \<Rightarrow> string" where
  "show_int i = (if i < 0 then CHR ''-'' # show_nat (nat (- i)) else show_nat (nat i))"

text \<open>Truthiness of the optional values the generators test with \<^verbatim>\<open>?:\<close>, \<^verbatim>\<open>||\<close> and \<^verbatim>\<open>if\<close>.\<close>

definition truthy_bool :: "bool option \<Rightarrow> bool" where
  "truthy_bool b = (b = Some True)"

definition truthy_str :: "string option \<Rightarrow> bool" where
  "truthy_str s = (case s of None \<Rightarrow> False | Some t \<Rightarrow> t \<noteq> [])"

definition truthy_num :: "int option \<Rightarrow> bool" where
  "truthy_num n = (case n of None \<Rightarrow> False | Some k \<Rightarrow> k \<noteq> 0)"

section \<open>The specification document\<close>

text \<open>
  The parsed JSON document. The two generator files declare two views of it: one with
  the flat \<open>required\<close>/\<open>regex\<close>/\<open>options\<close>/\<open>validationMessage\<close> attributes, a menu name,
  a menu type and a footer; one with the structured \<open>validations\<close> bundle and the
  \<open>buttons\<close>. An optional attribute is an \<open>option\<close>; \<open>None\<close> is \<^verbatim>\<open>undefined\<close>.
  The bundle's \<open>defaultValue\<close> is read by no generator and is left out.
\<close>

record validations =
  v_required :: "bool option"
  minLength :: "int option"
  maxLength :: "int option"
  v_regex :: "string option"
  v_range :: "(int \<times> int) option"

record field =
  field_name :: string
  field_type :: string
  required :: "bool option"
  regex :: "string option"
  options :: "string list option"
  validationMessage :: "string option"
  validations :: "validations option"

record component =
  name :: string
  comp_fields :: "field list"
  menuName :: "string option"
  buttons :: "string list option"

record openAPISpecification =
  projectName :: string
  components :: "component list"
  menuType :: string
  footerContent :: "string option"

datatype error = TypeError | ExecError string | JsonError

section \<open>Identifier derivation\<close>

text \<open>\<^verbatim>\<open>capitalize(str) = str.charAt(0).toUpperCase() + str.slice(1)\<close>\<close>

definition capitalize :: "string \<Rightarrow> string" where
  "capitalize str = toUpperCase (charAt0 str) @ slice1 str"

text \<open>\<^verbatim>\<open>toTitleCase\<close>: every space-delimited word capitalised, its rest lowercased.\<close>

definition toTitleCase :: "string \<Rightarrow> string" where
  "toTitleCase text =
     join '' '' (map (\<lambda>word. toUpperCase (charAt0 word) @ toLowerCase (slice1 word))
                     (split CHR '' '' text))"

section \<open>Validation rule compiler\<close>

text \<open>
  \<^verbatim>\<open>generateValidationRules\<close>: for each field an array \<open>validations\<close> is filled by five
  conditional pushes and joined into the control text
  \<^verbatim>\<open>name: [null, [v1, v2, ...]]\<close>. The range pushes one element holding both bounds.
\<close>

definition bundleValidators :: "validations \<Rightarrow> string list" where
  "bundleValidators b =
     (let vs0 = [];
          vs1 = (if truthy_bool (v_required b) then vs0 @ [''Validators.required''] else vs0);
          vs2 = (case minLength b of
                   Some n \<Rightarrow> if n \<noteq> 0
                             then vs1 @ [''Validators.minLength('' @ show_int n @ '')''] else vs1
                 | None \<Rightarrow> vs1);
          vs3 = (case maxLength b of
                   Some n \<Rightarrow> if n \<noteq> 0
                             then vs2 @ [''Validators.maxLength('' @ show_int n @ '')''] else vs2
                 | None \<Rightarrow> vs2);
          vs4 = (case v_regex b of
                   Some r \<Rightarrow> if r \<noteq> []
                             then vs3 @ [''Validators.pattern(/'' @ r @ ''/)''] else vs3
                 | None \<Rightarrow> vs3);
          vs5 = (case v_range b of
                   Some (lo, hi) \<Rightarrow>
                     vs4 @ [''Validators.min('' @ show_int lo @ ''), Validators.max('' @
                            show_int hi @ '')'']
                 | None \<Rightarrow> vs4)
      in vs5)"

text \<open>With no bundle every optional chain \<^verbatim>\<open>field.validations?.x\<close> is undefined and
  nothing is pushed.\<close>

definition fieldValidators :: "field \<Rightarrow> string list" where
  "fieldValidators f = (case validations f of None \<Rightarrow> [] | Some b \<Rightarrow> bundleValidators b)"

definition controlText :: "field \<Rightarrow> string" where
  "controlText f = field_name f @ '': [null, ['' @ join '', '' (fieldValidators f) @ '']]''"

definition generateValidationRules :: "component \<Rightarrow> string" where
  "generateValidationRules c = join '', '' (map controlText (comp_fields c))"

section \<open>Field markup renderer\<close>

text \<open>
  The callback of \<^verbatim>\<open>generateComponentHTMLContent\<close>: the field is destructured into
  \<open>name\<close>, \<open>type\<close>, \<open>required\<close>, \<open>regex\<close>, \<open>options\<close> (default \<^verbatim>\<open>[]\<close>) and
  \<open>validationMessage\<close>; the bundle \<open>validations\<close> is not read. Each template literal is
  transcribed with its line breaks and indentation.
\<close>

text \<open>\<^verbatim>\<open>a || d\<close> on an optional string: the empty string is falsy.\<close>

definition or_else :: "string option \<Rightarrow> string \<Rightarrow> string" where
  "or_else a d = (case a of None \<Rightarrow> d | Some s \<Rightarrow> if s \<noteq> [] then s else d)"

definition label :: "field \<Rightarrow> string" where
  "label f = toTitleCase (field_name f)"

definition requiredMarker :: "field \<Rightarrow> string" where
  "requiredMarker f = (if truthy_bool (required f) then '' *'' else [])"

definition defaultValidationMessage :: "field \<Rightarrow> string" where
  "defaultValidationMessage f = label f @ '' is required''"

definition errorMessage :: "field \<Rightarrow> string" where
  "errorMessage f = or_else (validationMessage f) (defaultValidationMessage f)"

definition requiredAttr :: "field \<Rightarrow> string" where
  "requiredAttr f = (if truthy_bool (required f) then ''required'' else [])"

definition patternAttrText :: "string \<Rightarrow> string" where
  \<open>patternAttrText r =
     ''pattern="'' @
     r @
     ''"''\<close>

definition patternAttr :: "field \<Rightarrow> string" where
  "patternAttr f =
     (case regex f of None \<Rightarrow> [] | Some r \<Rightarrow> if r \<noteq> [] then patternAttrText r else [])"

definition patternErrorText :: "field \<Rightarrow> string" where
  \<open>patternErrorText f =
     ''<div *ngIf="form.'' @
     field_name f @
     ''.errors?.pattern" class="text-danger">'' @
     or_else (validationMessage f) (field_name f @ '' format is invalid'') @
     ''</div>''\<close>

definition patternError :: "field \<Rightarrow> string" where
  "patternError f = (if truthy_str (regex f) then patternErrorText f else [])"

definition optionList :: "field \<Rightarrow> string list" where
  "optionList f = (case options f of None \<Rightarrow> [] | Some os \<Rightarrow> os)"

definition optionHTML :: "string \<Rightarrow> string" where
  \<open>optionHTML opt =
     ''<option value="'' @
     opt @
     ''">'' @
     opt @
     ''</option>''\<close>

definition checkboxItem :: "field \<Rightarrow> string \<Rightarrow> string" where
  \<open>checkboxItem f opt =
     ''<label><input type="checkbox" name="'' @
     field_name f @
     ''" value="'' @
     opt @
     ''" [ngModel]="'' @
     field_name f @
     ''"/> '' @
     opt @
     ''</label>''\<close>

definition radioItem :: "field \<Rightarrow> string \<Rightarrow> string" where
  \<open>radioItem f opt =
     ''<label><input type="radio" name="'' @
     field_name f @
     ''" value="'' @
     opt @
     ''" [ngModel]="'' @
     field_name f @
     ''" /> '' @
     opt @
     ''</label>''\<close>

definition textboxHTML :: "field \<Rightarrow> string" where
  \<open>textboxHTML f =
     ''\<newline>                <label for="'' @
     field_name f @
     ''">'' @
     label f @
     requiredMarker f @
     ''</label>\<newline>                <input type="text" id="'' @
     field_name f @
     ''" name="'' @
     field_name f @
     ''" class="form-control" [ngModel]="'' @
     field_name f @
     ''" '' @
     requiredAttr f @
     '' '' @
     patternAttr f @
     ''/>\<newline>                <div *ngIf="form.'' @
     field_name f @
     ''.errors?.required" class="text-danger">'' @
     errorMessage f @
     ''</div>\<newline>              '' @
     patternError f @
     ''\<newline>              ''\<close>

definition textareaHTML :: "field \<Rightarrow> string" where
  \<open>textareaHTML f =
     ''\<newline>                <label for="'' @
     field_name f @
     ''">'' @
     label f @
     requiredMarker f @
     ''</label>\<newline>                <textarea id="'' @
     field_name f @
     ''" name="'' @
     field_name f @
     ''" class="form-control" [ngModel]="'' @
     field_name f @
     ''" '' @
     requiredAttr f @
     ''></textarea>\<newline>                <div *ngIf="form.'' @
     field_name f @
     ''.errors?.required" class="text-danger">'' @
     errorMessage f @
     ''</div>\<newline>              ''\<close>

definition dropdownHTML :: "field \<Rightarrow> string" where
  \<open>dropdownHTML f =
     ''\<newline>                <label for="'' @
     field_name f @
     ''">'' @
     label f @
     requiredMarker f @
     ''</label>\<newline>                <select id="'' @
     field_name f @
     ''" name="'' @
     field_name f @
     ''" class="form-control" [ngModel]="'' @
     field_name f @
     ''" '' @
     requiredAttr f @
     ''>\<newline>                  <option value="">-- Select --</option>\<newline>                  '' @
     join [] (map optionHTML (optionList f)) @
     ''\<newline>                </select>\<newline>                <div *ngIf="form.'' @
     field_name f @
     ''.errors?.required" class="text-danger">'' @
     errorMessage f @
     ''</div>\<newline>              ''\<close>

definition checkboxHTML :: "field \<Rightarrow> string" where
  \<open>checkboxHTML f =
     ''\<newline>                <label>\<newline>                  <input type="checkbox" id="'' @
     field_name f @
     ''" name="'' @
     field_name f @
     ''" [ngModel]="'' @
     field_name f @
     ''" /> '' @
     label f @
     ''\<newline>                </label>\<newline>              ''\<close>

definition checkboxlistHTML :: "field \<Rightarrow> string" where
  \<open>checkboxlistHTML f =
     ''\<newline>                <label>'' @
     label f @
     requiredMarker f @
     ''</label>\<newline>                <div>\<newline>                  '' @
     join ''<br>'' (map (checkboxItem f) (optionList f)) @
     ''\<newline>                </div>\<newline>              ''\<close>

definition radiobuttonHTML :: "field \<Rightarrow> string" where
  \<open>radiobuttonHTML f =
     ''\<newline>                <label>\<newline>                  <input type="radio" id="'' @
     field_name f @
     ''" name="'' @
     field_name f @
     ''" [ngModel]="'' @
     field_name f @
     ''" /> '' @
     label f @
     ''\<newline>                </label>\<newline>              ''\<close>

definition radiobuttonlistHTML :: "field \<Rightarrow> string" where
  \<open>radiobuttonlistHTML f =
     ''\<newline>                <label>'' @
     label f @
     requiredMarker f @
     ''</label>\<newline>                <div>\<newline>                  '' @
     join ''<br>'' (map (radioItem f) (optionList f)) @
     ''\<newline>                </div>\<newline>                <div *ngIf="form.'' @
     field_name f @
     ''.errors?.required" class="text-danger">'' @
     errorMessage f @
     ''</div>\<newline>              ''\<close>

definition defaultHTML :: "field \<Rightarrow> string" where
  \<open>defaultHTML f =
     ''\<newline>                <label for="'' @
     field_name f @
     ''">'' @
     label f @
     requiredMarker f @
     ''</label>\<newline>                <input type="text" id="'' @
     field_name f @
     ''" name="'' @
     field_name f @
     ''" class="form-control" [ngModel]="'' @
     field_name f @
     ''" '' @
     requiredAttr f @
     '' '' @
     patternAttr f @
     ''/>\<newline>                <div *ngIf="form.'' @
     field_name f @
     ''.errors?.required" class="text-danger">'' @
     errorMessage f @
     ''</div>\<newline>              '' @
     patternError f @
     ''\<newline>              ''\<close>

text \<open>The \<^verbatim>\<open>switch (type)\<close>: seven cases and the default.\<close>

definition controlHTML :: "field \<Rightarrow> string" where
  "controlHTML f =
     (let t = field_type f in
      if t = ''textbox'' then textboxHTML f
      else if t = ''textarea'' then textareaHTML f
      else if t = ''dropdown'' then dropdownHTML f
      else if t = ''checkbox'' then checkboxHTML f
      else if t = ''checkboxlist'' then checkboxlistHTML f
      else if t = ''radiobutton'' then radiobuttonHTML f
      else if t = ''radiobuttonlist'' then radiobuttonlistHTML f
      else defaultHTML f)"

definition fieldHTML :: "field \<Rightarrow> string" where
  \<open>fieldHTML f =
     ''<div class="form-group">'' @
     controlHTML f @
     ''</div>''\<close>

section \<open>Component artifacts of the template flow\<close>

definition layoutClass :: "bool \<Rightarrow> int \<Rightarrow> string" where
  \<open>layoutClass useBootstrap columnLayout =
     (if useBootstrap then ''row row-cols-'' @ show_int columnLayout else ''custom-layout'')\<close>

definition generateComponentHTMLContent :: "component \<Rightarrow> bool \<Rightarrow> int \<Rightarrow> string" where
  \<open>generateComponentHTMLContent c useBootstrap columnLayout =
     ''\<newline>      <form #form="ngForm" (ngSubmit)="onSubmit(form)" class="'' @
     layoutClass useBootstrap columnLayout @
     ''">\<newline>        '' @
     join [] (map fieldHTML (comp_fields c)) @
     ''\<newline>        <button type="submit" class="btn btn-primary">Submit</button>\<newline>      </form>\<newline>    ''\<close>

definition generateComponentTSContent :: "component \<Rightarrow> string" where
  \<open>generateComponentTSContent c =
     ''\<newline>      import { Component, OnInit } from '@angular/core';\<newline>  \<newline>      @Component({\<newline>        selector: 'app-'' @
     toLowerCase (name c) @
     [CHR 0x27] @ '',\<newline>        templateUrl: './'' @
     toLowerCase (name c) @
     ''.component.html',\<newline>        styleUrls: ['./'' @
     toLowerCase (name c) @
     ''.component.css']\<newline>      })\<newline>      export class '' @
     name c @
     ''Component implements OnInit {\<newline>        constructor() { }\<newline>  \<newline>        ngOnInit(): void { }\<newline>  \<newline>        onSubmit(form: any): void {\<newline>          if (form.valid) {\<newline>            console.log('Form submitted:', form.value);\<newline>          } else {\<newline>            console.log('Form validation failed.');\<newline>          }\<newline>        }\<newline>      }\<newline>    ''\<close>

section \<open>Routing table generator\<close>

definition importLine :: "component \<Rightarrow> string" where
  \<open>importLine c =
     ''import { '' @
     name c @
     ''Component } from './'' @
     toLowerCase (name c) @
     ''/'' @
     toLowerCase (name c) @
     ''.component';''\<close>

definition routeLine :: "component \<Rightarrow> string" where
  \<open>routeLine c =
     ''{ path: '' @ [CHR 0x27] @
     toLowerCase (name c) @
     [CHR 0x27] @ '', component: '' @
     name c @
     ''Component }''\<close>

definition routingModuleText :: "component list \<Rightarrow> component \<Rightarrow> string" where
  \<open>routingModuleText cs first =
     ''\<newline>      import { NgModule } from '@angular/core';\<newline>      import { RouterModule, Routes } from '@angular/router';\<newline>  \<newline>      '' @
     join ''\<newline>'' (map importLine cs) @
     ''\<newline>  \<newline>      const routes: Routes = [\<newline>        '' @
     join '',\<newline>'' (map routeLine cs) @
     '',\<newline>        { path: '' @ [CHR 0x27] @ [CHR 0x27] @ '', redirectTo: '/'' @
     toLowerCase (name first) @
     [CHR 0x27] @ '', pathMatch: 'full' },\<newline>        { path: '**', redirectTo: '/'' @
     toLowerCase (name first) @
     [CHR 0x27] @ '' }\<newline>      ];\<newline>  \<newline>      @NgModule({\<newline>        imports: [RouterModule.forRoot(routes)],\<newline>        exports: [RouterModule]\<newline>      })\<newline>      export class AppRoutingModule { }\<newline>    ''\<close>

text \<open>\<^verbatim>\<open>components[0].name\<close> is read while the template is evaluated: on the empty
  list \<^verbatim>\<open>components[0]\<close> is undefined and the property access throws.\<close>

definition generateAppRoutingModuleContent :: "component list \<Rightarrow> error + string" where
  "generateAppRoutingModuleContent cs =
     (case cs of [] \<Rightarrow> Inl TypeError | first # rest \<Rightarrow> Inr (routingModuleText cs first))"

section \<open>Menu and shell\<close>

definition menuClass :: "string \<Rightarrow> bool \<Rightarrow> string" where
  "menuClass mt useBootstrap =
     (if useBootstrap
      then (if mt = ''vertical'' then ''nav flex-column'' else ''nav nav-pills'')
      else (if mt = ''vertical'' then ''custom-vertical-menu'' else ''custom-horizontal-menu''))"

definition menuItem :: "component \<Rightarrow> string" where
  \<open>menuItem c =
     ''<a class="nav-link" routerLink="/'' @
     toLowerCase (name c) @
     ''">'' @
     or_else (menuName c) (name c) @
     ''</a>''\<close>

definition generateMenuHTMLContent :: "component list \<Rightarrow> string \<Rightarrow> bool \<Rightarrow> string" where
  \<open>generateMenuHTMLContent cs mt useBootstrap =
     ''<nav class="'' @
     menuClass mt useBootstrap @
     ''">'' @
     join [] (map menuItem cs) @
     ''</nav>''\<close>

definition footerHtml :: "string option \<Rightarrow> string" where
  \<open>footerHtml fc =
     (case fc of
        None \<Rightarrow> []
      | Some t \<Rightarrow> if t \<noteq> [] then ''<footer>'' @ t @ ''</footer>'' else [])\<close>

definition appComponentHtml :: "string \<Rightarrow> string \<Rightarrow> string" where
  \<open>appComponentHtml menu footer =
     ''\<newline>        '' @
     menu @
     ''\<newline>        <router-outlet></router-outlet>\<newline>        '' @
     footer @
     ''\<newline>      ''\<close>

section \<open>The template flow over a file tree\<close>

text \<open>
  \<^verbatim>\<open>generateAngularProjectWithTSMorph\<close> of \<^verbatim>\<open>createproj.ts\<close>. The disk is a map from
  path text to file content (a path is identified by its text; directories carry no
  content, so \<^verbatim>\<open>ensureDirSync\<close> leaves the map as it is; disk failures are outside the
  model). The ts-morph project is the list of its in-memory source files, written by
  \<^verbatim>\<open>saveSync\<close>.
\<close>

type_synonym fsys = "string \<Rightarrow> string option"

type_synonym project = "(string \<times> string) list"

datatype outcome = Done | Threw error

definition emptyDirSync :: "string \<Rightarrow> fsys \<Rightarrow> fsys" where
  "emptyDirSync dir fs = (\<lambda>p. if prefix (dir @ ''/'') p then None else fs p)"

definition writeFileSync :: "string \<Rightarrow> string \<Rightarrow> fsys \<Rightarrow> fsys" where
  "writeFileSync p t fs = fs(p \<mapsto> t)"

definition createSourceFile :: "string \<Rightarrow> string \<Rightarrow> project \<Rightarrow> project" where
  "createSourceFile p t proj = filter (\<lambda>e. fst e \<noteq> p) proj @ [(p, t)]"

definition saveSync :: "project \<Rightarrow> fsys \<Rightarrow> fsys" where
  "saveSync proj fs = fold (\<lambda>e. writeFileSync (fst e) (snd e)) proj fs"

definition appModulePath :: "string \<Rightarrow> string" where
  \<open>appModulePath pn =
     pn @
     ''/src/app/app.module.ts''\<close>

definition appRoutingPath :: "string \<Rightarrow> string" where
  \<open>appRoutingPath pn =
     pn @
     ''/src/app/app-routing.module.ts''\<close>

definition componentDir :: "string \<Rightarrow> component \<Rightarrow> string" where
  \<open>componentDir pn c =
     pn @
     ''/src/app/'' @
     toLowerCase (name c)\<close>

definition componentTsPath :: "string \<Rightarrow> component \<Rightarrow> string" where
  \<open>componentTsPath pn c =
     componentDir pn c @
     ''/'' @
     toLowerCase (name c) @
     ''.component.ts''\<close>

definition componentHtmlPath :: "string \<Rightarrow> component \<Rightarrow> string" where
  \<open>componentHtmlPath pn c =
     componentDir pn c @
     ''/'' @
     toLowerCase (name c) @
     ''.component.html''\<close>

definition componentCssPath :: "string \<Rightarrow> component \<Rightarrow> string" where
  \<open>componentCssPath pn c =
     componentDir pn c @
     ''/'' @
     toLowerCase (name c) @
     ''.component.css''\<close>

definition appComponentHtmlPath :: "string \<Rightarrow> string" where
  \<open>appComponentHtmlPath pn =
     pn @
     ''/src/app/app.component.html''\<close>

text \<open>The body of \<^verbatim>\<open>components.forEach\<close>.\<close>

definition componentStep ::
  "string \<Rightarrow> bool \<Rightarrow> int \<Rightarrow> component \<Rightarrow> project \<times> fsys \<Rightarrow> project \<times> fsys" where
  "componentStep pn useBootstrap columnLayout c st =
     (let proj = createSourceFile (componentTsPath pn c) (generateComponentTSContent c) (fst st);
          fs1 = writeFileSync (componentHtmlPath pn c)
                  (generateComponentHTMLContent c useBootstrap columnLayout) (snd st);
          fs2 = writeFileSync (componentCssPath pn c) [] fs1
      in (proj, fs2))"

definition generateAngularProjectWithTSMorph ::
  "openAPISpecification \<Rightarrow> bool \<Rightarrow> int \<Rightarrow> fsys \<Rightarrow> outcome \<times> fsys" where
  "generateAngularProjectWithTSMorph spec useBootstrap columnLayout fs =
     (let pn = projectName spec;
          cs = components spec;
          fs1 = emptyDirSync pn fs;
          proj0 = createSourceFile (appModulePath pn) [] []
      in case generateAppRoutingModuleContent cs of
           Inl e \<Rightarrow> (Threw e, fs1)
         | Inr routing \<Rightarrow>
             (let proj1 = createSourceFile (appRoutingPath pn) routing proj0;
                  st = fold (componentStep pn useBootstrap columnLayout) cs (proj1, fs1);
                  menuHtml = generateMenuHTMLContent cs (menuType spec) useBootstrap;
                  fs3 = writeFileSync (appComponentHtmlPath pn)
                          (appComponentHtml menuHtml (footerHtml (footerContent spec))) (snd st);
                  fs4 = saveSync (fst st) fs3
              in (Done, fs4)))"

section \<open>The command-line flow\<close>

text \<open>
  \<^verbatim>\<open>generateAngularProjectWithTSMorph\<close> of the second generator file, which creates
  the skeleton and each component with the Angular command line and then overwrites the
  component class and markup. What the host decides is a parameter: whether a command
  succeeds (a function of its text), whether \<^verbatim>\<open>angular.json\<close> can be read and patched,
  the working directory, and the text of the non-integral number \<^verbatim>\<open>12 / columnLayout\<close>.
  \<^verbatim>\<open>path.join\<close> is modelled on plain segments, joined by a slash.
\<close>

record host =
  execSync_ok :: "string \<Rightarrow> bool"
  angularJson_ok :: bool
  cwd :: string
  quotientText :: "int \<Rightarrow> string"

definition path_join :: "string list \<Rightarrow> string" where
  "path_join segs = join ''/'' segs"

text \<open>The text of \<^verbatim>\<open>12 / columnLayout\<close>: exact for the divisors of 12, \<^verbatim>\<open>Infinity\<close> for 0.\<close>

definition quotient12 :: "(int \<Rightarrow> string) \<Rightarrow> int \<Rightarrow> string" where
  "quotient12 q n =
     (if n = 0 then ''Infinity'' else if 12 mod n = 0 then show_int (12 div n) else q n)"

definition newProjectCommand :: "string \<Rightarrow> string" where
  \<open>newProjectCommand pn =
     ''npx @angular/cli new '' @
     pn @
     '' --defaults''\<close>

definition installBootstrapCommand :: "string" where
  \<open>installBootstrapCommand =
     ''npm install bootstrap''\<close>

definition generateComponentCommand :: "component \<Rightarrow> string" where
  \<open>generateComponentCommand c =
     ''ng generate component '' @
     name c\<close>

definition tsFileName :: "component \<Rightarrow> string" where
  \<open>tsFileName c =
     name c @
     ''.component.ts''\<close>

definition htmlFileName :: "component \<Rightarrow> string" where
  \<open>htmlFileName c =
     name c @
     ''.component.html''\<close>

definition className :: "component \<Rightarrow> string" where
  \<open>className c =
     capitalize (name c) @
     ''Component''\<close>

definition decoratorArgument :: "component \<Rightarrow> string" where
  \<open>decoratorArgument c =
     ''{\<newline>              selector: 'app-'' @
     name c @
     [CHR 0x27] @ '',\<newline>              templateUrl: './'' @
     name c @
     ''.component.html',\<newline>              styleUrls: ['./'' @
     name c @
     ''.component.css']\<newline>            }''\<close>

definition ctorStatement :: "component \<Rightarrow> string" where
  \<open>ctorStatement c =
     ''this.form = this.fb.group({ '' @
     generateValidationRules c @
     '' });''\<close>

definition onSubmitStatements :: "string" where
  \<open>onSubmitStatements =
     ''\<newline>            if (this.form.valid) {\<newline>              console.log('Form Submitted:', this.form.value);\<newline>            } else {\<newline>              console.error('Form is invalid');\<newline>            }\<newline>          ''\<close>

text \<open>The class handed to ts-morph: its printed text is ts-morph's, so the source file is
  kept as the strings the generator supplies.\<close>

record classStructure =
  cls_name :: string
  cls_decorator :: string
  cls_ctor :: string
  cls_onSubmit :: string

definition componentClass :: "component \<Rightarrow> classStructure" where
  "componentClass c =
     \<lparr>cls_name = className c, cls_decorator = decoratorArgument c,
      cls_ctor = ctorStatement c, cls_onSubmit = onSubmitStatements\<rparr>"

definition columnClassOf :: "(int \<Rightarrow> string) \<Rightarrow> int \<Rightarrow> bool \<Rightarrow> string" where
  \<open>columnClassOf q columnLayout useBootstrap =
     (if useBootstrap then ''col-md-'' @ quotient12 q columnLayout
      else ''custom-col-'' @ show_int columnLayout)\<close>

definition fieldLabel :: "field \<Rightarrow> string" where
  \<open>fieldLabel f =
     ''<label for="'' @
     field_name f @
     ''">'' @
     capitalize (field_name f) @
     ''</label>''\<close>

definition fieldInput :: "field \<Rightarrow> string" where
  \<open>fieldInput f =
     ''<input id="'' @
     field_name f @
     ''" formControlName="'' @
     field_name f @
     ''" type="text" class="form-control" />''\<close>

definition fieldError :: "field \<Rightarrow> string" where
  \<open>fieldError f =
     ''<div *ngIf="form.controls['' @ [CHR 0x27] @
     field_name f @
     [CHR 0x27] @ ''].errors" class="text-danger">Invalid '' @
     field_name f @
     ''</div>''\<close>

definition fieldColumn :: "string \<Rightarrow> field \<Rightarrow> string" where
  \<open>fieldColumn columnClass f =
     ''<div class="'' @
     columnClass @
     ''">'' @
     fieldLabel f @
     ''\<newline>'' @
     fieldInput f @
     ''\<newline>'' @
     fieldError f @
     ''</div>''\<close>

definition buttonHTML :: "string \<Rightarrow> string" where
  \<open>buttonHTML button =
     ''<button type="button" class="btn btn-primary">'' @
     button @
     ''</button>''\<close>

definition componentMarkup :: "string \<Rightarrow> string \<Rightarrow> string" where
  \<open>componentMarkup fieldsHtml buttonsHtml =
     ''\<newline><div class="container">\<newline>  <form [formGroup]="form" (ngSubmit)="onSubmit()" class="row">\<newline>    '' @
     fieldsHtml @
     ''\<newline>    <div class="w-100"></div>\<newline>    '' @
     buttonsHtml @
     ''\<newline>  </form>\<newline></div>\<newline>  ''\<close>

text \<open>\<^verbatim>\<open>generateComponentHTML\<close>: \<^verbatim>\<open>component.buttons.map\<close> throws when the document has
  no \<open>buttons\<close> attribute.\<close>

definition generateComponentHTML ::
  "(int \<Rightarrow> string) \<Rightarrow> component \<Rightarrow> int \<Rightarrow> bool \<Rightarrow> error + string" where
  "generateComponentHTML q c columnLayout useBootstrap =
     (let columnClass = columnClassOf q columnLayout useBootstrap;
          fieldsHtml = join ''\<newline>'' (map (fieldColumn columnClass) (comp_fields c))
      in case buttons c of
           None \<Rightarrow> Inl TypeError
         | Some bs \<Rightarrow> Inr (componentMarkup fieldsHtml (join ''\<newline>'' (map buttonHTML bs))))"

datatype event =
    Exec string
  | Chdir string
  | PatchStyles string string
  | SaveSourceFile string classStructure
  | WriteFile string string

definition cliComponentPath :: "string \<Rightarrow> component \<Rightarrow> string" where
  "cliComponentPath projectPath c = path_join [projectPath, ''src'', ''app'', name c, tsFileName c]"

definition cliComponentHtmlPath :: "string \<Rightarrow> component \<Rightarrow> string" where
  "cliComponentHtmlPath projectPath c =
     path_join [projectPath, ''src'', ''app'', name c, htmlFileName c]"

text \<open>The \<^verbatim>\<open>for (const component of spec.components)\<close> loop; the log lists what was
  invoked and written, in order.\<close>

fun componentsLoop ::
  "host \<Rightarrow> string \<Rightarrow> bool \<Rightarrow> int \<Rightarrow> component list \<Rightarrow> outcome \<times> event list" where
  "componentsLoop h projectPath useBootstrap columnLayout [] = (Done, [])"
| "componentsLoop h projectPath useBootstrap columnLayout (c # cs) =
     (let cmd = generateComponentCommand c in
      if \<not> execSync_ok h cmd then (Threw (ExecError cmd), [Exec cmd])
      else
        (let saved = [Exec cmd, SaveSourceFile (cliComponentPath projectPath c) (componentClass c)]
         in case generateComponentHTML (quotientText h) c columnLayout useBootstrap of
              Inl e \<Rightarrow> (Threw e, saved)
            | Inr htmlCode \<Rightarrow>
                (case componentsLoop h projectPath useBootstrap columnLayout cs of
                   (out, log) \<Rightarrow>
                     (out, saved @ [WriteFile (cliComponentHtmlPath projectPath c) htmlCode] @ log))))"

definition generateAngularProjectWithTSMorph_cli ::
  "host \<Rightarrow> openAPISpecification \<Rightarrow> bool \<Rightarrow> int \<Rightarrow> outcome \<times> event list" where
  "generateAngularProjectWithTSMorph_cli h spec useBootstrap columnLayout =
     (let pn = projectName spec;
          projectPath = path_join [cwd h, pn];
          newCmd = newProjectCommand pn
      in if \<not> execSync_ok h newCmd then (Threw (ExecError newCmd), [Exec newCmd])
         else
           (let log1 = [Exec newCmd, Chdir projectPath] in
            if useBootstrap \<and> \<not> execSync_ok h installBootstrapCommand
            then (Threw (ExecError installBootstrapCommand), log1 @ [Exec installBootstrapCommand])
            else if useBootstrap \<and> \<not> angularJson_ok h
            then (Threw JsonError, log1 @ [Exec installBootstrapCommand])
            else
              (let log2 = (if useBootstrap
                           then log1 @ [Exec installBootstrapCommand,
                                        PatchStyles (path_join [projectPath, ''angular.json'']) pn]
                           else log1)
               in case componentsLoop h projectPath useBootstrap columnLayout (components spec) of
                    (out, log) \<Rightarrow> (out, log2 @ log))))"

text \<open>The files a log wrote, in order.\<close>

fun written :: "event list \<Rightarrow> string list" where
  "written [] = []"
| "written (SaveSourceFile p s # es) = p # written es"
| "written (WriteFile p t # es) = p # written es"
| "written (e # es) = written es"

section \<open>The directives and route entries the documentation names\<close>

text \<open>
  The documentation describes the compiler's output as a sequence of validation
  directives. The directive as an abstract value, the validator text that stands for it,
  and its place in the documented order: Required, MinLength, MaxLength, Pattern, Min,
  Max.
\<close>

datatype directive =
  Required | MinLength int | MaxLength int | Pattern string | Min int | Max int

fun render_directive :: "directive \<Rightarrow> string" where
  "render_directive Required = ''Validators.required''"
| "render_directive (MinLength n) = ''Validators.minLength('' @ show_int n @ '')''"
| "render_directive (MaxLength n) = ''Validators.maxLength('' @ show_int n @ '')''"
| "render_directive (Pattern r) = ''Validators.pattern(/'' @ r @ ''/)''"
| "render_directive (Min n) = ''Validators.min('' @ show_int n @ '')''"
| "render_directive (Max n) = ''Validators.max('' @ show_int n @ '')''"

fun rank :: "directive \<Rightarrow> nat" where
  "rank Required = 0"
| "rank (MinLength n) = 1"
| "rank (MaxLength n) = 2"
| "rank (Pattern r) = 3"
| "rank (Min n) = 4"
| "rank (Max n) = 5"

text \<open>The directives of a bundle, in the documentation's words: each sub-field that is
  set is translated on its own, the range into Min followed by Max. A sub-field counts
  as set when the compiler's test of it succeeds.\<close>

definition compiledDirectives :: "validations \<Rightarrow> directive list" where
  "compiledDirectives b =
     (if truthy_bool (v_required b) then [Required] else []) @
     (if truthy_num (minLength b) then [MinLength (the (minLength b))] else []) @
     (if truthy_num (maxLength b) then [MaxLength (the (maxLength b))] else []) @
     (if truthy_str (v_regex b) then [Pattern (the (v_regex b))] else []) @
     (case v_range b of Some (lo, hi) \<Rightarrow> [Min lo, Max hi] | None \<Rightarrow> [])"

text \<open>The route entry as the documentation words it: the path is the lowercased name,
  the component identifier the class form of the name followed by \<open>Component\<close>.\<close>

definition spec_routeLine :: "component \<Rightarrow> string" where
  \<open>spec_routeLine c =
     ''{ path: '' @ [CHR 0x27] @ toLowerCase (name c) @ [CHR 0x27] @ '', component: '' @
     capitalize (name c) @ ''Component }''\<close>

text \<open>The two synthetic entries that close the routes array of the routing module text.\<close>

definition redirectEntry :: "component \<Rightarrow> string" where
  \<open>redirectEntry first = ''{ path: '' @ [CHR 0x27, CHR 0x27] @ '', redirectTo: '/'' @
     toLowerCase (name first) @ [CHR 0x27] @ '', pathMatch: 'full' }''\<close>

definition wildcardEntry :: "component \<Rightarrow> string" where
  \<open>wildcardEntry first = ''{ path: '**', redirectTo: '/'' @
     toLowerCase (name first) @ [CHR 0x27] @ '' }''\<close>

text \<open>The paths inside a directory.\<close>

definition under :: "string \<Rightarrow> string set" where
  "under d = {p. prefix (d @ ''/'') p}"

section \<open>Example documents\<close>

text \<open>The bundle \<^verbatim>\<open>{required: true, minLength: 3, maxLength: 10}\<close> of the example
  document's \<open>username\<close> field.\<close>

definition exampleBundle :: validations where
  "exampleBundle = \<lparr>v_required = Some True, minLength = Some 3, maxLength = Some 10,
                     v_regex = None, v_range = None\<rparr>"

definition zeroBundle :: validations where
  "zeroBundle = \<lparr>v_required = Some True, minLength = Some 0, maxLength = Some 0,
                  v_regex = None, v_range = None\<rparr>"

definition zeroBoundField :: field where
  "zeroBoundField = \<lparr>field_name = ''nick'', field_type = ''textbox'', required = None,
     regex = None, options = None, validationMessage = None, validations = Some zeroBundle\<rparr>"

text \<open>A component with a validated field, an unvalidated one and two buttons.\<close>

definition usernameField :: field where
  "usernameField = \<lparr>field_name = ''username'', field_type = ''textbox'', required = Some True,
     regex = None, options = None, validationMessage = Some ''Username is required.'',
     validations = Some exampleBundle\<rparr>"

definition bioField :: field where
  "bioField = \<lparr>field_name = ''bio'', field_type = ''textarea'', required = Some False,
     regex = None, options = None, validationMessage = None, validations = None\<rparr>"

definition formComponent :: component where
  "formComponent = \<lparr>name = ''Register'', comp_fields = [usernameField, bioField],
     menuName = Some ''Users'', buttons = Some [''Submit'', ''Reset'']\<rparr>"

text \<open>A component whose name starts with a lowercase letter.\<close>

definition registerComponent :: component where
  "registerComponent = \<lparr>name = ''register'', comp_fields = [], menuName = None, buttons = None\<rparr>"

text \<open>The second component of the example document: one field, no menu override, and no
  \<open>buttons\<close> attribute.\<close>

definition descriptionField :: field where
  "descriptionField = \<lparr>field_name = ''description'', field_type = ''string'', required = None,
     regex = None, options = None, validationMessage = None, validations = None\<rparr>"

definition aboutComponent :: component where
  "aboutComponent = \<lparr>name = ''About'', comp_fields = [descriptionField],
     menuName = Some ''About'', buttons = None\<rparr>"

definition exampleSpec :: openAPISpecification where
  "exampleSpec = \<lparr>projectName = ''my-angular-app'',
     components = [formComponent, aboutComponent], menuType = ''horizontal'',
     footerContent = Some ''2024 MyCompany''\<rparr>"

text \<open>Fields of the example document: a required option list, a field that is required
  only through its bundle, and a required single toggle.\<close>

definition interestsField :: field where
  "interestsField = \<lparr>field_name = ''interests'', field_type = ''checkboxlist'',
     required = Some True, regex = None, options = Some [''Sports'', ''Music'', ''Travel''],
     validationMessage = None, validations = None\<rparr>"

definition ageField :: field where
  "ageField = \<lparr>field_name = ''age'', field_type = ''textbox'', required = None, regex = None,
     options = None, validationMessage = None,
     validations = Some \<lparr>v_required = Some True, minLength = None, maxLength = None,
                         v_regex = None, v_range = Some (18, 100)\<rparr>\<rparr>"

definition termsField :: field where
  "termsField = \<lparr>field_name = ''terms'', field_type = ''checkbox'', required = Some True,
     regex = None, options = None, validationMessage = None, validations = None\<rparr>"

text \<open>A component that declares an empty button list.\<close>

definition plainComponent :: component where
  "plainComponent = \<lparr>name = ''plain'', comp_fields = [bioField], menuName = None,
     buttons = Some []\<rparr>"

text \<open>Two hosts: one on which every command succeeds, one on which generating the second
  component of the example document fails.\<close>

definition okHost :: host where
  "okHost = \<lparr>execSync_ok = (\<lambda>cmd. True), angularJson_ok = True, cwd = ''/work'',
              quotientText = show_int\<rparr>"

definition failingHost :: host where
  "failingHost = \<lparr>execSync_ok = (\<lambda>cmd. cmd \<noteq> ''ng generate component About''),
                   angularJson_ok = True, cwd = ''/work'', quotientText = show_int\<rparr>"

section \<open>Joining and printing\<close>

lemma join_Cons: "ys \<noteq> [] \<Longrightarrow> join sep (x # ys) = x @ sep @ join sep ys"
  by (cases ys) simp_all

lemma join_append:
  "join sep (xs @ ys) =
     (if xs = [] then join sep ys else if ys = [] then join sep xs
      else join sep xs @ sep @ join sep ys)"
  by (induction sep xs rule: join.induct) (auto simp: join_Cons)

lemma join_merge_last: "join sep (ps @ [x @ sep @ y]) = join sep (ps @ [x, y])"
  by (simp add: join_append)

lemma show_int_small:
  "show_int 0 = ''0''" "show_int 2 = ''2''" "show_int 3 = ''3''" "show_int 10 = ''10''"
  by (simp_all add: show_int_def show_nat.simps digit_char_def)

lemma lower_examples:
  "toLowerCase ''Register'' = ''register''" "toLowerCase ''About'' = ''about''"
  "toLowerCase ''register'' = ''register''"
  by (simp_all add: toLowerCase_def toLowerChar_def lower_table_def)

lemma title_examples:
  "toTitleCase ''interests'' = ''Interests''" "toTitleCase ''age'' = ''Age''"
  "toTitleCase ''terms'' = ''Terms''" "toTitleCase ''username'' = ''Username''"
  by (simp_all add: toTitleCase_def toUpperCase_def toLowerCase_def toUpperChar_def
      toLowerChar_def upper_table_def lower_table_def charAt0_def slice1_def)

section \<open>Validation rule compiler: order of the directives\<close>

lemma push_num:
  "(case m of None \<Rightarrow> vs | Some n \<Rightarrow> if n \<noteq> 0 then vs @ [F n] else vs) =
     vs @ (if truthy_num m then [F (the m)] else [])"
  by (simp add: truthy_num_def split: option.splits)

lemma push_str:
  "(case m of None \<Rightarrow> vs | Some r \<Rightarrow> if r \<noteq> [] then vs @ [F r] else vs) =
     vs @ (if truthy_str m then [F (the m)] else [])"
  by (simp add: truthy_str_def split: option.splits)

lemma push_range:
  "(case m of None \<Rightarrow> vs | Some (lo, hi) \<Rightarrow> vs @ [F lo hi]) =
     vs @ (case m of None \<Rightarrow> [] | Some (lo, hi) \<Rightarrow> [F lo hi])"
  by (simp split: option.splits prod.splits)

text \<open>The pushed texts are the printed directives; the range is one element that holds
  the two bound directives separated as \<^verbatim>\<open>join\<close> would separate them.\<close>

lemma bundle_front:
  "bundleValidators b =
     map render_directive
       ((if truthy_bool (v_required b) then [Required] else []) @
        (if truthy_num (minLength b) then [MinLength (the (minLength b))] else []) @
        (if truthy_num (maxLength b) then [MaxLength (the (maxLength b))] else []) @
        (if truthy_str (v_regex b) then [Pattern (the (v_regex b))] else [])) @
     (case v_range b of
        None \<Rightarrow> []
      | Some (lo, hi) \<Rightarrow> [render_directive (Min lo) @ '', '' @ render_directive (Max hi)])"
  unfolding bundleValidators_def Let_def push_num push_str push_range
  by (simp split: option.splits prod.splits)

lemma bundle_join:
  "join '', '' (bundleValidators b) = join '', '' (map render_directive (compiledDirectives b))"
proof (cases "v_range b")
  case None
  then show ?thesis
    by (simp add: bundle_front compiledDirectives_def)
next
  case (Some r)
  obtain lo hi where r: "r = (lo, hi)" by (cases r)
  show ?thesis
    unfolding bundle_front compiledDirectives_def Some r
    using join_merge_last [of "'', ''" _ "render_directive (Min lo)" "render_directive (Max hi)"]
    by (simp del: render_directive.simps)
qed

lemma compiled_sorted: "sorted_wrt (<) (map rank (compiledDirectives b))"
  by (simp add: compiledDirectives_def split: option.splits prod.splits)

lemma example_validators:
  "bundleValidators exampleBundle =
     [''Validators.required'', ''Validators.minLength(3)'', ''Validators.maxLength(10)'']"
  by (simp add: exampleBundle_def bundleValidators_def Let_def truthy_bool_def show_int_small)

lemma example_directives:
  "compiledDirectives exampleBundle = [Required, MinLength 3, MaxLength 10]"
  by (simp add: exampleBundle_def compiledDirectives_def truthy_bool_def truthy_num_def
      truthy_str_def)

text \<open>
  C2. For a field that carries the structured bundle, the validator text is the compiled
  directives printed in emission order: Required, then MinLength, then MaxLength, then
  Pattern, then Min before Max (their ranks increase strictly along the list). The bundle
  \<^verbatim>\<open>{required: true, minLength: 3, maxLength: 10}\<close> compiles to exactly
  Required, MinLength(3), MaxLength(10).
\<close>

theorem validation_directive_order:
  "join '', '' (fieldValidators (f\<lparr>validations := Some b\<rparr>)) =
     join '', '' (map render_directive (compiledDirectives b))
   \<and> sorted_wrt (<) (map rank (compiledDirectives b))
   \<and> fieldValidators (f\<lparr>validations := Some exampleBundle\<rparr>) =
       [''Validators.required'', ''Validators.minLength(3)'', ''Validators.maxLength(10)'']
   \<and> compiledDirectives exampleBundle = [Required, MinLength 3, MaxLength 10]"
  by (simp add: fieldValidators_def bundle_join compiled_sorted example_validators
      example_directives)

theorem validation_directive_order_witness:
  "controlText (zeroBoundField\<lparr>validations := Some exampleBundle\<rparr>) =
     ''nick: [null, [Validators.required, Validators.minLength(3), Validators.maxLength(10)]]''"
proof -
  have "fieldValidators (zeroBoundField\<lparr>validations := Some exampleBundle\<rparr>) =
       [''Validators.required'', ''Validators.minLength(3)'', ''Validators.maxLength(10)'']"
    using validation_directive_order [where f = zeroBoundField and b = exampleBundle] by blast
  then show ?thesis
    by (simp add: controlText_def zeroBoundField_def)
qed

section \<open>Validation rule compiler: zero bounds\<close>

lemma zero_min_same:
  "minLength b = Some 0 \<Longrightarrow> bundleValidators b = bundleValidators (b\<lparr>minLength := None\<rparr>)"
  by (simp add: bundleValidators_def Let_def)

lemma zero_max_same:
  "maxLength b = Some 0 \<Longrightarrow> bundleValidators b = bundleValidators (b\<lparr>maxLength := None\<rparr>)"
  by (simp add: bundleValidators_def Let_def)

lemma zero_min_absent:
  "minLength b = Some 0 \<Longrightarrow>
     \<forall>d \<in> set (bundleValidators b). \<not> prefix ''Validators.minLength('' d"
  unfolding bundle_front
  by (auto simp: truthy_num_def split: option.splits prod.splits if_splits)

lemma zero_max_absent:
  "maxLength b = Some 0 \<Longrightarrow>
     \<forall>d \<in> set (bundleValidators b). \<not> prefix ''Validators.maxLength('' d"
  unfolding bundle_front
  by (auto simp: truthy_num_def split: option.splits prod.splits if_splits)

text \<open>
  C9. A bundle whose \<open>minLength\<close> is 0 compiles as if the bound were absent, and no
  pushed validator is a \<^verbatim>\<open>Validators.minLength(\<close> call; likewise for \<open>maxLength\<close>.
\<close>

theorem zero_length_bound_dropped:
  assumes "validations f = Some b"
  shows "(minLength b = Some 0 \<longrightarrow>
            fieldValidators f = fieldValidators (f\<lparr>validations := Some (b\<lparr>minLength := None\<rparr>)\<rparr>)
            \<and> (\<forall>d \<in> set (fieldValidators f). \<not> prefix ''Validators.minLength('' d))
       \<and> (maxLength b = Some 0 \<longrightarrow>
            fieldValidators f = fieldValidators (f\<lparr>validations := Some (b\<lparr>maxLength := None\<rparr>)\<rparr>)
            \<and> (\<forall>d \<in> set (fieldValidators f). \<not> prefix ''Validators.maxLength('' d))"
  using assms zero_min_same [of b] zero_max_same [of b] zero_min_absent [of b]
    zero_max_absent [of b]
  by (simp add: fieldValidators_def)

theorem zero_length_bound_dropped_witness:
  "validations zeroBoundField = Some zeroBundle
   \<and> minLength zeroBundle = Some 0 \<and> maxLength zeroBundle = Some 0
   \<and> fieldValidators zeroBoundField = [''Validators.required'']
   \<and> fieldValidators zeroBoundField =
       fieldValidators (zeroBoundField\<lparr>validations := Some (zeroBundle\<lparr>minLength := None\<rparr>)\<rparr>)
   \<and> fieldValidators zeroBoundField =
       fieldValidators (zeroBoundField\<lparr>validations := Some (zeroBundle\<lparr>maxLength := None\<rparr>)\<rparr>)
   \<and> controlText zeroBoundField = ''nick: [null, [Validators.required]]''"
proof -
  have v: "validations zeroBoundField = Some zeroBundle"
    by (simp add: zeroBoundField_def)
  have z: "minLength zeroBundle = Some 0" "maxLength zeroBundle = Some 0"
    by (simp_all add: zeroBundle_def)
  have e: "fieldValidators zeroBoundField = [''Validators.required'']"
    by (simp add: zeroBoundField_def zeroBundle_def fieldValidators_def bundleValidators_def
        Let_def truthy_bool_def)
  have c: "controlText zeroBoundField = ''nick: [null, [Validators.required]]''"
    by (simp add: controlText_def e) (simp add: zeroBoundField_def)
  have m: "fieldValidators zeroBoundField =
      fieldValidators (zeroBoundField\<lparr>validations := Some (zeroBundle\<lparr>minLength := None\<rparr>)\<rparr>)"
    using zero_length_bound_dropped [OF v] z by blast
  have x: "fieldValidators zeroBoundField =
      fieldValidators (zeroBoundField\<lparr>validations := Some (zeroBundle\<lparr>maxLength := None\<rparr>)\<rparr>)"
    using zero_length_bound_dropped [OF v] z by blast
  show ?thesis
    by (intro conjI) (rule v z e m x c)+
qed

section \<open>The form model\<close>





section \<open>Routing table\<close>

lemma routing_text_split:
  "routingModuleText cs first =
     (''\<newline>      import { NgModule } from '@angular/core';\<newline>      import { RouterModule, Routes } from '@angular/router';\<newline>  \<newline>      '' @
      join ''\<newline>'' (map importLine cs) @ ''\<newline>  \<newline>      '') @
     ''const routes: Routes = [\<newline>        '' @
     join '',\<newline>'' (map routeLine cs) @ '',\<newline>        '' @
     redirectEntry first @ '',\<newline>        '' @ wildcardEntry first @
     ''\<newline>      ];'' @
     ''\<newline>  \<newline>      @NgModule({\<newline>        imports: [RouterModule.forRoot(routes)],\<newline>        exports: [RouterModule]\<newline>      })\<newline>      export class AppRoutingModule { }\<newline>    ''"
  by (simp add: routingModuleText_def redirectEntry_def wildcardEntry_def)

text \<open>
  C1 (amended). For a non-empty component list the routes array of the routing module
  holds exactly \<open>length cs + 2\<close> entries: one per component in input order, whose path
  is the lowercased name and whose component identifier is the name as written followed
  by \<open>Component\<close>, then the empty-path entry and the wildcard entry, both redirecting
  to the lowercased name of the first component.
\<close>

theorem routing_table_entries:
  assumes "cs \<noteq> []"
  shows "\<exists>pre post entries.
     generateAppRoutingModuleContent cs =
       Inr (pre @ ''const routes: Routes = [\<newline>        '' @
            join '',\<newline>'' (take (length cs) entries) @ '',\<newline>        '' @
            entries ! length cs @ '',\<newline>        '' @ entries ! Suc (length cs) @
            ''\<newline>      ];'' @ post)
   \<and> length entries = length cs + 2
   \<and> (\<forall>i<length cs. entries ! i =
          ''{ path: '' @ [CHR 0x27] @ toLowerCase (name (cs ! i)) @ [CHR 0x27] @
          '', component: '' @ name (cs ! i) @ ''Component }'')
   \<and> entries ! length cs =
        ''{ path: '' @ [CHR 0x27, CHR 0x27] @ '', redirectTo: '/'' @
        toLowerCase (name (hd cs)) @ [CHR 0x27] @ '', pathMatch: 'full' }''
   \<and> entries ! Suc (length cs) =
        ''{ path: '**', redirectTo: '/'' @ toLowerCase (name (hd cs)) @ [CHR 0x27] @ '' }''"
proof -
  obtain first rest where cs: "cs = first # rest"
    using assms by (cases cs) auto
  let ?entries = "map routeLine cs @ [redirectEntry first, wildcardEntry first]"
  have t: "take (length cs) ?entries = map routeLine cs" by simp
  have n0: "?entries ! length cs = redirectEntry first"
    by (simp add: nth_append)
  have n1: "?entries ! Suc (length cs) = wildcardEntry first"
    by (simp add: nth_append)
  have g: "generateAppRoutingModuleContent cs = Inr (routingModuleText cs first)"
    by (simp add: generateAppRoutingModuleContent_def cs)
  have i: "\<forall>i<length cs. ?entries ! i =
          ''{ path: '' @ [CHR 0x27] @ toLowerCase (name (cs ! i)) @ [CHR 0x27] @
          '', component: '' @ name (cs ! i) @ ''Component }''"
    by (simp add: nth_append routeLine_def)
  have h: "hd cs = first" by (simp add: cs)
  show ?thesis
    apply (rule exI, rule exI, rule exI [of _ ?entries])
    unfolding t n0 n1 g h
    apply (intro conjI)
        apply (subst routing_text_split, rule refl)
       apply simp
      apply (rule i)
     apply (simp add: redirectEntry_def)
    apply (simp add: wildcardEntry_def)
    done
qed

theorem routing_table_entries_witness:
  "\<exists>pre post entries.
     generateAppRoutingModuleContent [formComponent, aboutComponent] =
       Inr (pre @ ''const routes: Routes = [\<newline>        '' @
            join '',\<newline>'' (take 2 entries) @ '',\<newline>        '' @
            entries ! 2 @ '',\<newline>        '' @ entries ! 3 @
            ''\<newline>      ];'' @ post)
   \<and> length entries = 4
   \<and> entries ! 0 = ''{ path: 'register', component: RegisterComponent }''
   \<and> entries ! 1 = ''{ path: 'about', component: AboutComponent }''
   \<and> entries ! 2 = ''{ path: '' @ [CHR 0x27, CHR 0x27] @ '', redirectTo: '/register', pathMatch: 'full' }''
   \<and> entries ! 3 = ''{ path: '**', redirectTo: '/register' }''"
proof -
  let ?cs = "[formComponent, aboutComponent]"
  have ne: "?cs \<noteq> []" by simp
  have n: "name formComponent = ''Register''" "name aboutComponent = ''About''"
    by (simp_all add: formComponent_def aboutComponent_def)
  from routing_table_entries [OF ne] obtain pre post entries where
    g: "generateAppRoutingModuleContent ?cs =
       Inr (pre @ ''const routes: Routes = [\<newline>        '' @
            join '',\<newline>'' (take (length ?cs) entries) @ '',\<newline>        '' @
            entries ! length ?cs @ '',\<newline>        '' @ entries ! Suc (length ?cs) @
            ''\<newline>      ];'' @ post)"
    and l: "length entries = length ?cs + 2"
    and e: "\<forall>i<length ?cs. entries ! i =
          ''{ path: '' @ [CHR 0x27] @ toLowerCase (name (?cs ! i)) @ [CHR 0x27] @
          '', component: '' @ name (?cs ! i) @ ''Component }''"
    and r: "entries ! length ?cs =
        ''{ path: '' @ [CHR 0x27, CHR 0x27] @ '', redirectTo: '/'' @
        toLowerCase (name (hd ?cs)) @ [CHR 0x27] @ '', pathMatch: 'full' }''"
    and w: "entries ! Suc (length ?cs) =
        ''{ path: '**', redirectTo: '/'' @ toLowerCase (name (hd ?cs)) @ [CHR 0x27] @ '' }''"
    by blast
  have e0: "entries ! 0 = ''{ path: 'register', component: RegisterComponent }''"
    using e [rule_format, of 0] by (simp add: n lower_examples)
  have e1: "entries ! 1 = ''{ path: 'about', component: AboutComponent }''"
    using e [rule_format, of 1] by (simp add: n lower_examples)
  have e2: "entries ! 2 = ''{ path: '' @ [CHR 0x27, CHR 0x27] @ '', redirectTo: '/register', pathMatch: 'full' }''"
    using r by (simp add: n lower_examples numeral_2_eq_2)
  have e3: "entries ! 3 = ''{ path: '**', redirectTo: '/register' }''"
    using w by (simp add: n lower_examples numeral_3_eq_3)
  have l4: "length entries = 4" using l by simp
  have g': "generateAppRoutingModuleContent ?cs =
       Inr (pre @ ''const routes: Routes = [\<newline>        '' @
            join '',\<newline>'' (take 2 entries) @ '',\<newline>        '' @
            entries ! 2 @ '',\<newline>        '' @ entries ! 3 @
            ''\<newline>      ];'' @ post)"
    using g by (simp add: numeral_3_eq_3 numeral_2_eq_2)
  show ?thesis
    using g' l4 e0 e1 e2 e3 by blast
qed

text \<open>
  C1 as stated fails: for the component named \<open>register\<close> the entry names
  \<open>registerComponent\<close>; the class form \<open>RegisterComponent\<close> occurs nowhere in the
  routing module text.
\<close>

theorem routing_component_identifier_counterexample:
  "\<not> isl (generateAppRoutingModuleContent [registerComponent])
   \<and> routeLine registerComponent = ''{ path: 'register', component: registerComponent }''
   \<and> spec_routeLine registerComponent = ''{ path: 'register', component: RegisterComponent }''
   \<and> sublist (routeLine registerComponent)
        (projr (generateAppRoutingModuleContent [registerComponent]))
   \<and> \<not> sublist ''RegisterComponent''
        (projr (generateAppRoutingModuleContent [registerComponent]))"
  by code_simp

section \<open>The template flow is a function of its input\<close>

lemma writeFileSync_add: "writeFileSync p t (base ++ m) = base ++ writeFileSync p t m"
  by (simp add: writeFileSync_def)

lemma componentStep_add:
  "componentStep pn b cl c (proj, base ++ m) =
     (fst (componentStep pn b cl c (proj, m)), base ++ snd (componentStep pn b cl c (proj, m)))"
  by (simp add: componentStep_def Let_def writeFileSync_add)

lemma fold_componentStep_add:
  "fold (componentStep pn b cl) cs (proj, base ++ m) =
     (fst (fold (componentStep pn b cl) cs (proj, m)),
      base ++ snd (fold (componentStep pn b cl) cs (proj, m)))"
proof (induction cs arbitrary: proj m)
  case Nil
  then show ?case by simp
next
  case (Cons c cs)
  obtain proj' m' where s: "componentStep pn b cl c (proj, m) = (proj', m')"
    by (cases "componentStep pn b cl c (proj, m)")
  have "componentStep pn b cl c (proj, base ++ m) = (proj', base ++ m')"
    using componentStep_add [of pn b cl c proj base m] s by simp
  then show ?case
    using Cons.IH [of proj' m'] s by simp
qed

lemma saveSync_add: "saveSync proj (base ++ m) = base ++ saveSync proj m"
  unfolding saveSync_def
  by (induction proj arbitrary: m) (simp_all add: writeFileSync_add)

lemma emptyDirSync_empty: "emptyDirSync d Map.empty = Map.empty"
  by (simp add: emptyDirSync_def)

text \<open>The run from any disk is the run from the empty disk laid over the emptied disk.\<close>

lemma run_overlay:
  "generateAngularProjectWithTSMorph spec b cl fs =
     (fst (generateAngularProjectWithTSMorph spec b cl Map.empty),
      emptyDirSync (projectName spec) fs ++ snd (generateAngularProjectWithTSMorph spec b cl Map.empty))"
proof (cases "generateAppRoutingModuleContent (components spec)")
  case (Inl e)
  then show ?thesis
    by (simp add: generateAngularProjectWithTSMorph_def Let_def emptyDirSync_empty)
next
  case (Inr routing)
  let ?fs1 = "emptyDirSync (projectName spec) fs"
  let ?step = "componentStep (projectName spec) b cl"
  have f: "fold ?step cs (proj, ?fs1) =
      (fst (fold ?step cs (proj, Map.empty)), ?fs1 ++ snd (fold ?step cs (proj, Map.empty)))"
    for cs proj
    using fold_componentStep_add [of "projectName spec" b cl cs proj ?fs1 Map.empty] by simp
  show ?thesis
    unfolding generateAngularProjectWithTSMorph_def Let_def Inr emptyDirSync_empty
    by (simp only: sum.case f fst_conv snd_conv writeFileSync_add saveSync_add)
qed

lemma prefix_same: "prefix (d @ ''/'') (d @ ''/'' @ rest)"
  by simp

lemma createSourceFile_keys:
  "fst ` set (createSourceFile p t proj) \<subseteq> insert p (fst ` set proj)"
  by (auto simp: createSourceFile_def)

lemma createSourceFile_under:
  "p \<in> S \<Longrightarrow> fst ` set proj \<subseteq> S \<Longrightarrow> fst ` set (createSourceFile p t proj) \<subseteq> S"
  using createSourceFile_keys [of p t proj] by blast

lemma saveSync_dom: "dom (saveSync proj m) = dom m \<union> fst ` set proj"
  unfolding saveSync_def
  by (induction proj arbitrary: m) (auto simp: writeFileSync_def)

lemma saveSync_other: "q \<notin> fst ` set proj \<Longrightarrow> saveSync proj m q = m q"
  unfolding saveSync_def
  by (induction proj arbitrary: m) (auto simp: writeFileSync_def)

lemma trans_sym: "a = c \<Longrightarrow> b = c \<Longrightarrow> a = b"
  by simp

lemma paths_under:
  "appModulePath pn \<in> under pn" "appRoutingPath pn \<in> under pn"
  "appComponentHtmlPath pn \<in> under pn" "componentTsPath pn c \<in> under pn"
  "componentHtmlPath pn c \<in> under pn" "componentCssPath pn c \<in> under pn"
  by (simp_all add: under_def appModulePath_def appRoutingPath_def appComponentHtmlPath_def
      componentTsPath_def componentHtmlPath_def componentCssPath_def componentDir_def)

lemma componentStep_under:
  assumes "fst ` set proj \<subseteq> under pn" "dom m \<subseteq> under pn"
  shows "fst ` set (fst (componentStep pn b cl c (proj, m))) \<subseteq> under pn
       \<and> dom (snd (componentStep pn b cl c (proj, m))) \<subseteq> under pn"
  using assms createSourceFile_under [OF paths_under(4) assms(1)] paths_under(5-6) [of pn c]
  by (simp add: componentStep_def Let_def writeFileSync_def)

lemma fold_componentStep_under:
  assumes "fst ` set proj \<subseteq> under pn" "dom m \<subseteq> under pn"
  shows "fst ` set (fst (fold (componentStep pn b cl) cs (proj, m))) \<subseteq> under pn
       \<and> dom (snd (fold (componentStep pn b cl) cs (proj, m))) \<subseteq> under pn"
  using assms
proof (induction cs arbitrary: proj m)
  case Nil
  then show ?case by simp
next
  case (Cons c cs)
  obtain proj' m' where s: "componentStep pn b cl c (proj, m) = (proj', m')"
    by (cases "componentStep pn b cl c (proj, m)")
  have "fst ` set proj' \<subseteq> under pn" "dom m' \<subseteq> under pn"
    using componentStep_under [OF Cons.prems, of b cl c] s by simp_all
  then show ?case
    using Cons.IH [of proj' m'] s by simp
qed

lemma run_dom:
  "dom (snd (generateAngularProjectWithTSMorph spec b cl Map.empty)) \<subseteq> under (projectName spec)"
proof (cases "generateAppRoutingModuleContent (components spec)")
  case (Inl e)
  then show ?thesis
    by (simp add: generateAngularProjectWithTSMorph_def Let_def emptyDirSync_empty)
next
  case (Inr routing)
  let ?pn = "projectName spec"
  let ?proj1 = "createSourceFile (appRoutingPath ?pn) routing (createSourceFile (appModulePath ?pn) [] [])"
  have k: "fst ` set ?proj1 \<subseteq> under ?pn"
    using paths_under(1-2) [of ?pn] by (auto simp: createSourceFile_def)
  have "dom (Map.empty :: fsys) \<subseteq> under ?pn" by simp
  from fold_componentStep_under [OF k this, of b cl "components spec"]
  show ?thesis
    using paths_under(3) [of ?pn]
    by (auto simp: generateAngularProjectWithTSMorph_def Let_def Inr emptyDirSync_empty
        saveSync_dom writeFileSync_def)
qed

lemma overlay_idem:
  assumes "dom w \<subseteq> under d"
  shows "emptyDirSync d (emptyDirSync d fs ++ w) ++ w = emptyDirSync d fs ++ w"
proof
  fix p
  show "(emptyDirSync d (emptyDirSync d fs ++ w) ++ w) p = (emptyDirSync d fs ++ w) p"
  proof (cases "w p")
    case None
    then show ?thesis by (simp add: map_add_def emptyDirSync_def)
  next
    case (Some t)
    then show ?thesis by (simp add: map_add_def)
  qed
qed

text \<open>
  C3. A second run on the tree the first run left gives the same outcome and the same
  tree, and from any two starting trees the outcome and the content of every path inside
  the project directory agree: the artifacts are a function of the document, the
  styled-grid flag and the column count alone.
\<close>

theorem generation_deterministic:
  "generateAngularProjectWithTSMorph spec b cl (snd (generateAngularProjectWithTSMorph spec b cl fs))
     = generateAngularProjectWithTSMorph spec b cl fs
   \<and> fst (generateAngularProjectWithTSMorph spec b cl fs)
     = fst (generateAngularProjectWithTSMorph spec b cl fs')
   \<and> (prefix (projectName spec @ ''/'') p \<longrightarrow>
        snd (generateAngularProjectWithTSMorph spec b cl fs) p
      = snd (generateAngularProjectWithTSMorph spec b cl fs') p)"
proof -
  let ?run = "generateAngularProjectWithTSMorph spec b cl"
  let ?w = "snd (?run Map.empty)"
  let ?d = "projectName spec"
  have r: "?run x = (fst (?run Map.empty), emptyDirSync ?d x ++ ?w)" for x
    by (rule run_overlay)
  have s: "snd (?run x) = emptyDirSync ?d x ++ ?w" for x
    using r [of x] by (metis snd_conv)
  have o: "fst (?run x) = fst (?run Map.empty)" for x
    using r [of x] by (metis fst_conv)
  have "snd (?run (snd (?run fs))) = emptyDirSync ?d (snd (?run fs)) ++ ?w"
    by (rule s)
  also have "\<dots> = emptyDirSync ?d (emptyDirSync ?d fs ++ ?w) ++ ?w"
    by (simp only: s [of fs])
  also have "\<dots> = emptyDirSync ?d fs ++ ?w"
    by (rule overlay_idem [OF run_dom])
  also have "\<dots> = snd (?run fs)"
    by (rule s [symmetric])
  finally have 1: "snd (?run (snd (?run fs))) = snd (?run fs)" .
  have 2: "fst (?run (snd (?run fs))) = fst (?run fs)"
    using o [of "snd (?run fs)"] o [of fs] by (rule trans_sym) 
  have a: "?run (snd (?run fs)) = ?run fs"
    using 2 1 by (rule prod_eqI)
  have b: "fst (?run fs) = fst (?run fs')"
    using o [of fs] o [of fs'] by (rule trans_sym)
  have c: "prefix (?d @ ''/'') p \<longrightarrow> snd (?run fs) p = snd (?run fs') p"
    by (simp only: s [of fs] s [of fs']) (simp add: map_add_def emptyDirSync_def)
  show ?thesis
    using a b c by blast
qed

theorem generation_deterministic_witness:
  "prefix (projectName exampleSpec @ ''/'') ''my-angular-app/src/app/app.component.html''
   \<and> snd (generateAngularProjectWithTSMorph exampleSpec True 2 Map.empty)
         ''my-angular-app/src/app/app.component.html''
     = snd (generateAngularProjectWithTSMorph exampleSpec True 2
              (Map.empty(''my-angular-app/src/app/app.component.html'' \<mapsto> ''stale'')))
         ''my-angular-app/src/app/app.component.html''"
proof -
  have p: "prefix (projectName exampleSpec @ ''/'') ''my-angular-app/src/app/app.component.html''"
    by (simp add: exampleSpec_def)
  show ?thesis
    using p generation_deterministic [of exampleSpec True 2 Map.empty
        "Map.empty(''my-angular-app/src/app/app.component.html'' \<mapsto> ''stale'')"
        "''my-angular-app/src/app/app.component.html''"]
    by blast
qed

section \<open>Characters of the generated text\<close>

lemma toUpperChar_question:
  "(toUpperChar c = CHR ''?'') = (c = CHR ''?'')" "(CHR ''?'' = toUpperChar c) = (c = CHR ''?'')"
  by (auto simp add: toUpperChar_def upper_table_def split: option.splits if_splits)

lemma toLowerChar_question:
  "(toLowerChar c = CHR ''?'') = (c = CHR ''?'')" "(CHR ''?'' = toLowerChar c) = (c = CHR ''?'')"
  by (auto simp add: toLowerChar_def lower_table_def split: option.splits if_splits)

lemma set_join: "set (join sep xs) \<subseteq> set sep \<union> \<Union> (set ` set xs)"
  by (induction sep xs rule: join.induct) auto

lemma set_split: "w \<in> set (split d s) \<Longrightarrow> set w \<subseteq> set s"
proof (induction s arbitrary: w)
  case Nil
  then show ?case by simp
next
  case (Cons c cs)
  show ?case
  proof (cases "c = d")
    case True
    then show ?thesis
      using Cons.prems Cons.IH by auto
  next
    case False
    show ?thesis
    proof (cases "split d cs")
      case Nil
      then show ?thesis
        using Cons.prems False by auto
    next
      case (Cons a rest)
      have a: "set a \<subseteq> set cs"
        using Cons.IH [of a] Cons by simp
      have r: "set v \<subseteq> set cs" if "v \<in> set rest" for v
        using Cons.IH [of v] Cons that by simp
      from Cons.prems False Cons have "w = c # a \<or> w \<in> set rest"
        by simp
      then show ?thesis
        using a r by auto
    qed
  qed
qed

lemma toUpperCase_question: "CHR ''?'' \<notin> set xs \<Longrightarrow> CHR ''?'' \<notin> set (toUpperCase xs)"
  by (induction xs) (auto simp add: toUpperCase_def toUpperChar_question)

lemma toLowerCase_question: "CHR ''?'' \<notin> set xs \<Longrightarrow> CHR ''?'' \<notin> set (toLowerCase xs)"
  by (induction xs) (auto simp add: toLowerCase_def toLowerChar_question)

lemma toTitleCase_question:
  assumes "CHR ''?'' \<notin> set s"
  shows "CHR ''?'' \<notin> set (toTitleCase s)"
proof
  assume "CHR ''?'' \<in> set (toTitleCase s)"
  then have "CHR ''?'' \<in> set '' '' \<union>
      \<Union> (set ` set (map (\<lambda>word. toUpperCase (charAt0 word) @ toLowerCase (slice1 word))
                         (split CHR '' '' s)))"
    using set_join unfolding toTitleCase_def by blast
  then obtain w where w: "w \<in> set (split CHR '' '' s)"
    "CHR ''?'' \<in> set (toUpperCase (charAt0 w) @ toLowerCase (slice1 w))"
    by auto
  have ws: "set w \<subseteq> set s" using set_split [OF w(1)] .
  have "set (charAt0 w) \<subseteq> set w" "set (slice1 w) \<subseteq> set w"
    by (auto simp: charAt0_def slice1_def dest: in_set_takeD in_set_dropD)
  with ws assms have "CHR ''?'' \<notin> set (charAt0 w)" "CHR ''?'' \<notin> set (slice1 w)"
    by auto
  then have "CHR ''?'' \<notin> set (toUpperCase (charAt0 w) @ toLowerCase (slice1 w))"
    using toUpperCase_question [of "charAt0 w"] toLowerCase_question [of "slice1 w"]
    by simp
  with w(2) show False by simp
qed

section \<open>Menu and shell assembly\<close>


lemma footerHtml_cases:
  "footerHtml None = []" "footerHtml (Some []) = []"
  "t \<noteq> [] \<Longrightarrow> footerHtml (Some t) = ''<footer>'' @ t @ ''</footer>''"
  by (simp_all add: footerHtml_def)

lemma footerHtml_not_empty_element: "footerHtml fc \<noteq> ''<footer></footer>''"
  by (cases fc) (auto simp: footerHtml_def)

lemma shell_path_not_module:
  "appComponentHtmlPath pn \<noteq> appModulePath pn" "appComponentHtmlPath pn \<noteq> appRoutingPath pn"
  by (simp_all add: appComponentHtmlPath_def appModulePath_def appRoutingPath_def)

lemma shell_path_not_component: "appComponentHtmlPath pn \<noteq> componentTsPath pn c"
proof
  assume "appComponentHtmlPath pn = componentTsPath pn c"
  then have "''app.component.html'' = toLowerCase (name c) @ ''/'' @ toLowerCase (name c) @ ''.component.ts''"
    by (simp add: appComponentHtmlPath_def componentTsPath_def componentDir_def)
  then have "last ''app.component.html''
      = last (toLowerCase (name c) @ ''/'' @ toLowerCase (name c) @ ''.component.ts'')"
    by (rule arg_cong)
  then show False by simp
qed

lemma subset_chain: "A \<subseteq> insert x B \<Longrightarrow> C \<subseteq> A \<union> D \<Longrightarrow> C \<subseteq> B \<union> insert x D"
  by blast

lemma fold_componentStep_keys:
  "fst ` set (fst (fold (componentStep pn b cl) cs (proj, m)))
     \<subseteq> fst ` set proj \<union> componentTsPath pn ` set cs"
proof (induction cs arbitrary: proj m)
  case Nil
  then show ?case by simp
next
  case (Cons c cs)
  obtain proj' m' where s: "componentStep pn b cl c (proj, m) = (proj', m')"
    by (cases "componentStep pn b cl c (proj, m)")
  then have p: "proj' = createSourceFile (componentTsPath pn c) (generateComponentTSContent c) proj"
    by (simp add: componentStep_def Let_def)
  have a: "fst ` set proj' \<subseteq> insert (componentTsPath pn c) (fst ` set proj)"
    unfolding p by (rule createSourceFile_keys)
  have "fst ` set (fst (fold (componentStep pn b cl) cs (proj', m')))
      \<subseteq> fst ` set proj' \<union> componentTsPath pn ` set cs"
    by (rule Cons.IH)
  from a this have "fst ` set (fst (fold (componentStep pn b cl) cs (proj', m')))
      \<subseteq> fst ` set proj \<union> insert (componentTsPath pn c) (componentTsPath pn ` set cs)"
    by (rule subset_chain)
  then show ?case
    using s by simp
qed

lemma run_shell_file:
  assumes "components spec \<noteq> []"
  shows "snd (generateAngularProjectWithTSMorph spec b cl fs) (appComponentHtmlPath (projectName spec))
     = Some (appComponentHtml (generateMenuHTMLContent (components spec) (menuType spec) b)
               (footerHtml (footerContent spec)))"
proof -
  let ?pn = "projectName spec"
  obtain first rest where cs: "components spec = first # rest"
    using assms by (cases "components spec") auto
  have g: "generateAppRoutingModuleContent (components spec)
      = Inr (routingModuleText (components spec) first)"
    by (simp add: generateAppRoutingModuleContent_def cs)
  let ?proj1 = "createSourceFile (appRoutingPath ?pn) (routingModuleText (components spec) first)
      (createSourceFile (appModulePath ?pn) [] [])"
  let ?st = "fold (componentStep ?pn b cl) (components spec) (?proj1, emptyDirSync ?pn fs)"
  have k1: "fst ` set ?proj1 \<subseteq> {appRoutingPath ?pn, appModulePath ?pn}"
    by (auto simp: createSourceFile_def)
  have "fst ` set (fst ?st) \<subseteq> fst ` set ?proj1 \<union> componentTsPath ?pn ` set (components spec)"
    by (rule fold_componentStep_keys)
  with k1 have "appComponentHtmlPath ?pn \<notin> fst ` set (fst ?st)"
    using shell_path_not_module [of ?pn] shell_path_not_component [of ?pn] by blast
  then show ?thesis
    unfolding generateAngularProjectWithTSMorph_def Let_def g
    by (simp add: saveSync_other writeFileSync_def)
qed

text \<open>
  C6. After a run on a non-empty component list the shell file holds the navigation
  fragment, then the router placeholder, then the footer fragment. The footer fragment is
  empty when no footer text is supplied (absent or empty), is the text inside a
  \<open>footer\<close> element otherwise, and is never the empty \<open>footer\<close> element.
\<close>

theorem shell_markup:
  "(components spec \<noteq> [] \<longrightarrow>
      snd (generateAngularProjectWithTSMorph spec b cl fs) (appComponentHtmlPath (projectName spec))
      = Some (''\<newline>        '' @ generateMenuHTMLContent (components spec) (menuType spec) b @
              ''\<newline>        <router-outlet></router-outlet>\<newline>        '' @
              footerHtml (footerContent spec) @ ''\<newline>      ''))
   \<and> footerHtml None = [] \<and> footerHtml (Some []) = []
   \<and> (t \<noteq> [] \<longrightarrow> footerHtml (Some t) = ''<footer>'' @ t @ ''</footer>'')
   \<and> footerHtml fc \<noteq> ''<footer></footer>''"
  using run_shell_file [of spec b cl fs] footerHtml_cases footerHtml_not_empty_element
  by (simp add: appComponentHtml_def)

lemma menu_example:
  \<open>generateMenuHTMLContent (components exampleSpec) (menuType exampleSpec) True =
     ''<nav class="nav nav-pills"><a class="nav-link" routerLink="/register">Users</a><a class="nav-link" routerLink="/about">About</a></nav>''\<close>
  by (simp add: generateMenuHTMLContent_def exampleSpec_def menuClass_def menuItem_def
      formComponent_def aboutComponent_def or_else_def lower_examples)

theorem shell_markup_witness:
  \<open>snd (generateAngularProjectWithTSMorph exampleSpec True 2 Map.empty)
       ''my-angular-app/src/app/app.component.html''
     = Some (''\<newline>        <nav class="nav nav-pills"><a class="nav-link" routerLink="/register">Users</a><a class="nav-link" routerLink="/about">About</a></nav>\<newline>        <router-outlet></router-outlet>\<newline>        <footer>2024 MyCompany</footer>\<newline>      '')\<close>
proof -
  have c: "components exampleSpec \<noteq> []" by (simp add: exampleSpec_def)
  have t: "''2024 MyCompany'' \<noteq> []" by simp
  have p: "appComponentHtmlPath (projectName exampleSpec) = ''my-angular-app/src/app/app.component.html''"
    by (simp add: appComponentHtmlPath_def exampleSpec_def)
  have f: "footerContent exampleSpec = Some ''2024 MyCompany''" by (simp add: exampleSpec_def)
  show ?thesis
    using shell_markup [of exampleSpec True 2 Map.empty "''2024 MyCompany''" None] c t
    unfolding p f menu_example
    by simp
qed

section \<open>Field fragments\<close>

lemma checkboxlist_fragment:
  assumes "field_type f = ''checkboxlist''"
  shows \<open>fieldHTML f =
     ''<div class="form-group">\<newline>                <label>'' @ label f @ requiredMarker f @
     ''</label>\<newline>                <div>\<newline>                  '' @
     join ''<br>'' (map (checkboxItem f) (optionList f)) @
     ''\<newline>                </div>\<newline>              </div>''\<close>
  using assms by (simp add: fieldHTML_def controlHTML_def checkboxlistHTML_def)

lemma checkboxItem_question:
  assumes "CHR ''?'' \<notin> set (field_name f)" "CHR ''?'' \<notin> set opt"
  shows "CHR ''?'' \<notin> set (checkboxItem f opt)"
  using assms by (simp add: checkboxItem_def)

lemma requiredMarker_question: "CHR ''?'' \<notin> set (requiredMarker f)"
  by (simp add: requiredMarker_def)

lemma checkboxlist_question:
  assumes "field_type f = ''checkboxlist''" "CHR ''?'' \<notin> set (field_name f)"
    "\<forall>opt \<in> set (optionList f). CHR ''?'' \<notin> set opt"
  shows "CHR ''?'' \<notin> set (fieldHTML f)"
proof -
  have l: "CHR ''?'' \<notin> set (label f)"
    using assms(2) by (simp add: label_def toTitleCase_question)
  have "set (join ''<br>'' (map (checkboxItem f) (optionList f)))
      \<subseteq> set ''<br>'' \<union> \<Union> (set ` set (map (checkboxItem f) (optionList f)))"
    by (rule set_join)
  moreover have "CHR ''?'' \<notin> \<Union> (set ` set (map (checkboxItem f) (optionList f)))"
    using assms(2,3) checkboxItem_question by auto
  ultimately have j: "CHR ''?'' \<notin> set (join ''<br>'' (map (checkboxItem f) (optionList f)))"
    by auto
  show ?thesis
    unfolding checkboxlist_fragment [OF assms(1)]
    using l j requiredMarker_question [of f] by simp
qed

text \<open>
  C7. A \<open>checkboxlist\<close> field renders, inside the field container, its label and one
  toggle per declared option, in declaration order, each a checkbox input whose name
  attribute is the field's name; nothing follows the toggles but the closing tags, so the
  fragment holds no required-error block whatever the required flag is (for a name and
  options free of question marks the text \<open>errors?.required\<close> does not occur in it).
\<close>

theorem checkboxlist_rendering:
  assumes "field_type f = ''checkboxlist''"
  shows \<open>\<exists>toggles.
     fieldHTML f =
       ''<div class="form-group">\<newline>                <label>'' @ label f @
       (if truthy_bool (required f) then '' *'' else []) @
       ''</label>\<newline>                <div>\<newline>                  '' @
       join ''<br>'' toggles @
       ''\<newline>                </div>\<newline>              </div>''
   \<and> length toggles = length (optionList f)
   \<and> (\<forall>i < length (optionList f). toggles ! i =
          ''<label><input type="checkbox" name="'' @ field_name f @ ''" value="'' @
          optionList f ! i @ ''" [ngModel]="'' @ field_name f @ ''"/> '' @
          optionList f ! i @ ''</label>'')
   \<and> (CHR ''?'' \<notin> set (field_name f) \<and> (\<forall>opt \<in> set (optionList f). CHR ''?'' \<notin> set opt)
        \<longrightarrow> \<not> sublist ''errors?.required'' (fieldHTML f))\<close>
proof -
  let ?toggles = "map (checkboxItem f) (optionList f)"
  have 1: \<open>fieldHTML f =
       ''<div class="form-group">\<newline>                <label>'' @ label f @
       (if truthy_bool (required f) then '' *'' else []) @
       ''</label>\<newline>                <div>\<newline>                  '' @
       join ''<br>'' ?toggles @
       ''\<newline>                </div>\<newline>              </div>''\<close>
    using checkboxlist_fragment [OF assms] by (simp add: requiredMarker_def)
  have 2: "length ?toggles = length (optionList f)" by simp
  have 3: \<open>\<forall>i < length (optionList f). ?toggles ! i =
          ''<label><input type="checkbox" name="'' @ field_name f @ ''" value="'' @
          optionList f ! i @ ''" [ngModel]="'' @ field_name f @ ''"/> '' @
          optionList f ! i @ ''</label>''\<close>
    by (simp add: checkboxItem_def)
  have 4: "\<not> sublist ''errors?.required'' (fieldHTML f)"
    if "CHR ''?'' \<notin> set (field_name f) \<and> (\<forall>opt \<in> set (optionList f). CHR ''?'' \<notin> set opt)"
  proof
    assume "sublist ''errors?.required'' (fieldHTML f)"
    then have "set ''errors?.required'' \<subseteq> set (fieldHTML f)"
      by (rule set_mono_sublist)
    then have "CHR ''?'' \<in> set (fieldHTML f)" by auto
    then show False
      using checkboxlist_question [OF assms] that by blast
  qed
  show ?thesis
    using 1 2 3 4 by blast
qed

theorem checkboxlist_rendering_witness:
  \<open>field_type interestsField = ''checkboxlist''
   \<and> \<not> sublist ''errors?.required'' (fieldHTML interestsField)
   \<and> (\<exists>toggles.
       fieldHTML interestsField =
         ''<div class="form-group">\<newline>                <label>Interests *</label>\<newline>                <div>\<newline>                  '' @
         join ''<br>'' toggles @
         ''\<newline>                </div>\<newline>              </div>''
     \<and> length toggles = 3
     \<and> toggles ! 0 = ''<label><input type="checkbox" name="interests" value="Sports" [ngModel]="interests"/> Sports</label>''
     \<and> toggles ! 1 = ''<label><input type="checkbox" name="interests" value="Music" [ngModel]="interests"/> Music</label>''
     \<and> toggles ! 2 = ''<label><input type="checkbox" name="interests" value="Travel" [ngModel]="interests"/> Travel</label>'')\<close>
proof -
  have t: "field_type interestsField = ''checkboxlist''"
    by (simp add: interestsField_def)
  have o: "optionList interestsField = [''Sports'', ''Music'', ''Travel'']"
    by (simp add: optionList_def interestsField_def)
  have n: "field_name interestsField = ''interests''" "truthy_bool (required interestsField)"
    by (simp_all add: interestsField_def truthy_bool_def)
  have l: "label interestsField = ''Interests''"
    by (simp add: label_def n title_examples)
  have q: "CHR ''?'' \<notin> set (field_name interestsField)
      \<and> (\<forall>opt \<in> set (optionList interestsField). CHR ''?'' \<notin> set opt)"
    by (simp add: o n)
  from checkboxlist_rendering [OF t] obtain toggles where
    a: \<open>fieldHTML interestsField =
       ''<div class="form-group">\<newline>                <label>'' @ label interestsField @
       (if truthy_bool (required interestsField) then '' *'' else []) @
       ''</label>\<newline>                <div>\<newline>                  '' @
       join ''<br>'' toggles @
       ''\<newline>                </div>\<newline>              </div>''\<close>
    and b: "length toggles = length (optionList interestsField)"
    and c: \<open>\<forall>i < length (optionList interestsField). toggles ! i =
          ''<label><input type="checkbox" name="'' @ field_name interestsField @ ''" value="'' @
          optionList interestsField ! i @ ''" [ngModel]="'' @ field_name interestsField @ ''"/> '' @
          optionList interestsField ! i @ ''</label>''\<close>
    and d: "CHR ''?'' \<notin> set (field_name interestsField)
        \<and> (\<forall>opt \<in> set (optionList interestsField). CHR ''?'' \<notin> set opt)
        \<longrightarrow> \<not> sublist ''errors?.required'' (fieldHTML interestsField)"
    by blast
  have 0: "\<not> sublist ''errors?.required'' (fieldHTML interestsField)"
    using d q by blast
  have 1: \<open>fieldHTML interestsField =
         ''<div class="form-group">\<newline>                <label>Interests *</label>\<newline>                <div>\<newline>                  '' @
         join ''<br>'' toggles @
         ''\<newline>                </div>\<newline>              </div>''\<close>
    using a by (simp add: l n)
  have 2: "length toggles = 3" using b by (simp add: o)
  have 3: \<open>toggles ! 0 = ''<label><input type="checkbox" name="interests" value="Sports" [ngModel]="interests"/> Sports</label>''\<close>
    using c [rule_format, of 0] by (simp add: o n)
  have 4: \<open>toggles ! 1 = ''<label><input type="checkbox" name="interests" value="Music" [ngModel]="interests"/> Music</label>''\<close>
    using c [rule_format, of 1] by (simp add: o n)
  have 5: \<open>toggles ! 2 = ''<label><input type="checkbox" name="interests" value="Travel" [ngModel]="interests"/> Travel</label>''\<close>
    using c [rule_format, of 2] by (simp add: o n)
  show ?thesis
    using t 0 1 2 3 4 5 by blast
qed

section \<open>The required marker\<close>

lemma marked_templates:
  \<open>\<exists>pre post. textboxHTML f = pre @ ''>'' @ label f @ requiredMarker f @ ''</label>'' @ post\<close>
  \<open>\<exists>pre post. textareaHTML f = pre @ ''>'' @ label f @ requiredMarker f @ ''</label>'' @ post\<close>
  \<open>\<exists>pre post. dropdownHTML f = pre @ ''>'' @ label f @ requiredMarker f @ ''</label>'' @ post\<close>
  \<open>\<exists>pre post. checkboxlistHTML f = pre @ ''>'' @ label f @ requiredMarker f @ ''</label>'' @ post\<close>
  \<open>\<exists>pre post. radiobuttonlistHTML f = pre @ ''>'' @ label f @ requiredMarker f @ ''</label>'' @ post\<close>
  \<open>\<exists>pre post. defaultHTML f = pre @ ''>'' @ label f @ requiredMarker f @ ''</label>'' @ post\<close>
proof -
  show \<open>\<exists>pre post. textboxHTML f = pre @ ''>'' @ label f @ requiredMarker f @ ''</label>'' @ post\<close>
    unfolding textboxHTML_def
    by (rule exI [of _ \<open>''\<newline>                <label for="'' @ field_name f @ [CHR 0x22]\<close>]) simp
  show \<open>\<exists>pre post. textareaHTML f = pre @ ''>'' @ label f @ requiredMarker f @ ''</label>'' @ post\<close>
    unfolding textareaHTML_def
    by (rule exI [of _ \<open>''\<newline>                <label for="'' @ field_name f @ [CHR 0x22]\<close>]) simp
  show \<open>\<exists>pre post. dropdownHTML f = pre @ ''>'' @ label f @ requiredMarker f @ ''</label>'' @ post\<close>
    unfolding dropdownHTML_def
    by (rule exI [of _ \<open>''\<newline>                <label for="'' @ field_name f @ [CHR 0x22]\<close>]) simp
  show \<open>\<exists>pre post. checkboxlistHTML f = pre @ ''>'' @ label f @ requiredMarker f @ ''</label>'' @ post\<close>
    unfolding checkboxlistHTML_def
    by (rule exI [of _ \<open>''\<newline>                <label''\<close>]) simp
  show \<open>\<exists>pre post. radiobuttonlistHTML f = pre @ ''>'' @ label f @ requiredMarker f @ ''</label>'' @ post\<close>
    unfolding radiobuttonlistHTML_def
    by (rule exI [of _ \<open>''\<newline>                <label''\<close>]) simp
  show \<open>\<exists>pre post. defaultHTML f = pre @ ''>'' @ label f @ requiredMarker f @ ''</label>'' @ post\<close>
    unfolding defaultHTML_def
    by (rule exI [of _ \<open>''\<newline>                <label for="'' @ field_name f @ [CHR 0x22]\<close>]) simp
qed

lemma marked_control:
  assumes "field_type f \<noteq> ''checkbox''" "field_type f \<noteq> ''radiobutton''"
  shows \<open>\<exists>pre post. controlHTML f = pre @ ''>'' @ label f @ requiredMarker f @ ''</label>'' @ post\<close>
  using assms marked_templates [of f]
  by (simp add: controlHTML_def Let_def)


section \<open>The two component markups as text\<close>

lemma component_markup_text:
  assumes "buttons c = Some bs"
  shows \<open>generateComponentHTML q c cl b =
     Inr (''\<newline><div class="container">\<newline>  <form [formGroup]="form" (ngSubmit)="onSubmit()" class="row">\<newline>    '' @
          join ''\<newline>'' (map (fieldColumn (columnClassOf q cl b)) (comp_fields c)) @
          ''\<newline>    <div class="w-100"></div>\<newline>    '' @
          join ''\<newline>'' (map (\<lambda>l. ''<button type="button" class="btn btn-primary">'' @ l @ ''</button>'') bs) @
          ''\<newline>  </form>\<newline></div>\<newline>  '')\<close>
proof -
  have m: \<open>map buttonHTML bs = map (\<lambda>l. ''<button type="button" class="btn btn-primary">'' @ l @ ''</button>'') bs\<close>
    by (simp add: buttonHTML_def)
  show ?thesis
    unfolding generateComponentHTML_def Let_def assms option.case componentMarkup_def m
    by simp
qed

lemma template_markup_text:
  \<open>generateComponentHTMLContent c b cl =
     ''\<newline>      <form #form="ngForm" (ngSubmit)="onSubmit(form)" class="'' @ layoutClass b cl @ ''">\<newline>        '' @
     join [] (map fieldHTML (comp_fields c)) @
     ''\<newline>        <button type="submit" class="btn btn-primary">Submit</button>\<newline>      </form>\<newline>    ''\<close>
  by (simp add: generateComponentHTMLContent_def)

lemma fieldColumn_text:
  \<open>fieldColumn cls f =
       ''<div class="'' @ cls @ ''"><label for="'' @ field_name f @ ''">'' @ capitalize (field_name f) @
       ''</label>\<newline><input id="'' @ field_name f @ ''" formControlName="'' @ field_name f @
       ''" type="text" class="form-control" />\<newline><div *ngIf="form.controls['' @ [CHR 0x27] @
       field_name f @ [CHR 0x27] @ ''].errors" class="text-danger">Invalid '' @ field_name f @
       ''</div></div>''\<close>
  by (simp add: fieldColumn_def fieldLabel_def fieldInput_def fieldError_def)

lemma fieldColumn_flags: "fieldColumn cls (f\<lparr>required := r, validations := v\<rparr>) = fieldColumn cls f"
  by (simp add: fieldColumn_def fieldLabel_def fieldInput_def fieldError_def)

lemma capital_examples:
  "capitalize ''username'' = ''Username''" "capitalize ''bio'' = ''Bio''"
  by (simp_all add: capitalize_def toUpperCase_def toUpperChar_def upper_table_def charAt0_def
      slice1_def)

lemma column_class_example: "columnClassOf show_int 2 True = ''col-md-6''"
  by (simp add: columnClassOf_def quotient12_def show_int_def show_nat.simps digit_char_def)

text \<open>
  C4 (amended). In the template flow every rendered field is wrapped in the
  \<open>form-group\<close> container, the form markup is the join of these fragments, and a
  fragment does not depend on the structured bundle; whenever the flat \<open>required\<close> flag
  is set and the type is neither \<open>checkbox\<close> nor \<open>radiobutton\<close>, the label is the
  title-cased name followed by the marker \<open> *\<close>. In the command-line flow every field is
  wrapped in the column container, its label is the capitalised name with no marker, and
  the fragment depends neither on the flat flag nor on the bundle.
\<close>

theorem required_marker_flat_flag:
  \<open>(\<exists>body. fieldHTML f = ''<div class="form-group">'' @ body @ ''</div>'')
   \<and> fieldHTML (f\<lparr>validations := v\<rparr>) = fieldHTML f
   \<and> (truthy_bool (required f) \<and> field_type f \<noteq> ''checkbox'' \<and> field_type f \<noteq> ''radiobutton''
        \<longrightarrow> (\<exists>pre post. fieldHTML f =
               ''<div class="form-group">'' @ pre @ ''>'' @ toTitleCase (field_name f) @
               '' *</label>'' @ post @ ''</div>''))
   \<and> generateComponentHTMLContent c b cl =
       ''\<newline>      <form #form="ngForm" (ngSubmit)="onSubmit(form)" class="'' @ layoutClass b cl @ ''">\<newline>        '' @
       join [] (map fieldHTML (comp_fields c)) @
       ''\<newline>        <button type="submit" class="btn btn-primary">Submit</button>\<newline>      </form>\<newline>    ''
   \<and> fieldColumn cls f =
       ''<div class="'' @ cls @ ''"><label for="'' @ field_name f @ ''">'' @ capitalize (field_name f) @
       ''</label>\<newline><input id="'' @ field_name f @ ''" formControlName="'' @ field_name f @
       ''" type="text" class="form-control" />\<newline><div *ngIf="form.controls['' @ [CHR 0x27] @
       field_name f @ [CHR 0x27] @ ''].errors" class="text-danger">Invalid '' @ field_name f @
       ''</div></div>''
   \<and> fieldColumn cls (f\<lparr>required := r, validations := v\<rparr>) = fieldColumn cls f
   \<and> (\<forall>bs. buttons c = Some bs \<longrightarrow>
        generateComponentHTML q c cl b =
          Inr (''\<newline><div class="container">\<newline>  <form [formGroup]="form" (ngSubmit)="onSubmit()" class="row">\<newline>    '' @
               join ''\<newline>'' (map (fieldColumn (columnClassOf q cl b)) (comp_fields c)) @
               ''\<newline>    <div class="w-100"></div>\<newline>    '' @
               join ''\<newline>'' (map (\<lambda>l. ''<button type="button" class="btn btn-primary">'' @ l @ ''</button>'') bs) @
               ''\<newline>  </form>\<newline></div>\<newline>  ''))\<close>
proof -
  have 1: \<open>\<exists>body. fieldHTML f = ''<div class="form-group">'' @ body @ ''</div>''\<close>
    by (simp add: fieldHTML_def)
  have i: "checkboxItem (f\<lparr>validations := v\<rparr>) = checkboxItem f"
    "radioItem (f\<lparr>validations := v\<rparr>) = radioItem f"
    by (rule ext, simp add: checkboxItem_def radioItem_def)+
  have 2: "fieldHTML (f\<lparr>validations := v\<rparr>) = fieldHTML f"
    by (simp add: i fieldHTML_def controlHTML_def Let_def textboxHTML_def textareaHTML_def
        dropdownHTML_def checkboxHTML_def checkboxlistHTML_def radiobuttonHTML_def
        radiobuttonlistHTML_def defaultHTML_def label_def requiredMarker_def requiredAttr_def
        patternAttr_def errorMessage_def defaultValidationMessage_def patternError_def
        patternErrorText_def optionList_def checkboxItem_def radioItem_def)
  have 3: \<open>\<exists>pre post. fieldHTML f =
               ''<div class="form-group">'' @ pre @ ''>'' @ toTitleCase (field_name f) @
               '' *</label>'' @ post @ ''</div>''\<close>
    if h: "truthy_bool (required f) \<and> field_type f \<noteq> ''checkbox'' \<and> field_type f \<noteq> ''radiobutton''"
  proof -
    from h marked_control [of f] obtain pre post where
      c: \<open>controlHTML f = pre @ ''>'' @ label f @ requiredMarker f @ ''</label>'' @ post\<close>
      by blast
    have m: "requiredMarker f = '' *''"
      using h by (simp add: requiredMarker_def)
    have \<open>fieldHTML f = ''<div class="form-group">'' @ pre @ ''>'' @ toTitleCase (field_name f) @
               '' *</label>'' @ post @ ''</div>''\<close>
      unfolding fieldHTML_def c m by (simp add: label_def)
    then show ?thesis by blast
  qed
  note 4 = template_markup_text [where c = c and b = b and cl = cl]
  note 5 = fieldColumn_text [where cls = cls and f = f]
  note 6 = fieldColumn_flags [where cls = cls and f = f and r = r and v = v]
  note 7 = component_markup_text [where c = c and q = q and cl = cl and b = b]
  show ?thesis
    using 1 2 3 4 5 6 7 by blast
qed

theorem required_marker_flat_flag_witness:
  \<open>truthy_bool (required usernameField) \<and> field_type usernameField = ''textbox''
   \<and> (\<exists>pre post. fieldHTML usernameField =
         ''<div class="form-group">'' @ pre @ ''>Username *</label>'' @ post @ ''</div>'')
   \<and> fieldColumn ''col-md-6'' usernameField =
       ''<div class="col-md-6"><label for="username">Username</label>\<newline><input id="username" formControlName="username" type="text" class="form-control" />\<newline><div *ngIf="form.controls['username'].errors" class="text-danger">Invalid username</div></div>''\<close>
proof -
  have h: "truthy_bool (required usernameField) \<and> field_type usernameField \<noteq> ''checkbox''
      \<and> field_type usernameField \<noteq> ''radiobutton''"
    by (simp add: usernameField_def truthy_bool_def)
  have n: "toTitleCase (field_name usernameField) = ''Username''"
    by (simp add: usernameField_def title_examples)
  have k: "field_name usernameField = ''username''" by (simp add: usernameField_def)
  have t: "field_type usernameField = ''textbox''" by (simp add: usernameField_def)
  note r = required_marker_flat_flag [where f = usernameField and v = None
      and c = formComponent and b = True and cl = 2 and cls = "''col-md-6''" and r = None
      and q = show_int]
  from r h
  have \<open>\<exists>pre post. fieldHTML usernameField =
         ''<div class="form-group">'' @ pre @ ''>'' @ toTitleCase (field_name usernameField) @
         '' *</label>'' @ post @ ''</div>''\<close>
    by blast
  then have a: \<open>\<exists>pre post. fieldHTML usernameField =
         ''<div class="form-group">'' @ pre @ ''>Username *</label>'' @ post @ ''</div>''\<close>
    unfolding n by simp
  from r have \<open>fieldColumn ''col-md-6'' usernameField =
       ''<div class="'' @ ''col-md-6'' @ ''"><label for="'' @ field_name usernameField @ ''">'' @
       capitalize (field_name usernameField) @
       ''</label>\<newline><input id="'' @ field_name usernameField @ ''" formControlName="'' @
       field_name usernameField @
       ''" type="text" class="form-control" />\<newline><div *ngIf="form.controls['' @ [CHR 0x27] @
       field_name usernameField @ [CHR 0x27] @ ''].errors" class="text-danger">Invalid '' @
       field_name usernameField @ ''</div></div>''\<close>
    by blast
  then have b: \<open>fieldColumn ''col-md-6'' usernameField =
       ''<div class="col-md-6"><label for="username">Username</label>\<newline><input id="username" formControlName="username" type="text" class="form-control" />\<newline><div *ngIf="form.controls['username'].errors" class="text-danger">Invalid username</div></div>''\<close>
    unfolding k capital_examples by simp
  show ?thesis
    using h t a b by blast
qed

text \<open>
  C4 as stated fails: the example document's \<open>age\<close> field is required through its bundle
  only and its label carries no marker; a required \<open>checkbox\<close> field carries no marker
  either; and the command-line flow renders the required \<open>username\<close> field with neither
  the marker nor the \<open>form-group\<close> container.
\<close>

theorem required_marker_counterexample:
  \<open>Option.bind (validations ageField) v_required = Some True
   \<and> sublist ''<label for="age">Age</label>'' (fieldHTML ageField)
   \<and> \<not> sublist ''*</label>'' (fieldHTML ageField)
   \<and> required termsField = Some True
   \<and> \<not> sublist ''*'' (fieldHTML termsField)
   \<and> required usernameField = Some True
   \<and> \<not> isl (generateComponentHTML show_int formComponent 2 True)
   \<and> sublist ''<label for="username">Username</label>''
        (projr (generateComponentHTML show_int formComponent 2 True))
   \<and> \<not> sublist ''*</label>'' (projr (generateComponentHTML show_int formComponent 2 True))
   \<and> \<not> sublist ''form-group'' (projr (generateComponentHTML show_int formComponent 2 True))\<close>
  by code_simp

section \<open>Buttons\<close>

text \<open>
  C5 (amended). In the command-line flow the markup of a component that declares its
  buttons is the container and form opening, the field columns (each a label, an input
  and an error block), the break, then exactly one \<open>button\<close> element per declared
  label, in declaration order, then the closing tags; for an empty button list nothing
  stands between the break and the closing tags. In
  the template flow the markup is the form opening, the field fragments and the single
  \<open>Submit\<close> button, whatever buttons the component declares.
\<close>

theorem declared_buttons_markup:
  \<open>(\<forall>bs. buttons c = Some bs \<longrightarrow>
       generateComponentHTML q c cl b =
         Inr (''\<newline><div class="container">\<newline>  <form [formGroup]="form" (ngSubmit)="onSubmit()" class="row">\<newline>    '' @
              join ''\<newline>'' (map (fieldColumn (columnClassOf q cl b)) (comp_fields c)) @
              ''\<newline>    <div class="w-100"></div>\<newline>    '' @
              join ''\<newline>'' (map (\<lambda>l. ''<button type="button" class="btn btn-primary">'' @ l @ ''</button>'') bs) @
              ''\<newline>  </form>\<newline></div>\<newline>  ''))
   \<and> (buttons c = Some [] \<longrightarrow>
       generateComponentHTML q c cl b =
         Inr (''\<newline><div class="container">\<newline>  <form [formGroup]="form" (ngSubmit)="onSubmit()" class="row">\<newline>    '' @
              join ''\<newline>'' (map (fieldColumn (columnClassOf q cl b)) (comp_fields c)) @
              ''\<newline>    <div class="w-100"></div>\<newline>    \<newline>  </form>\<newline></div>\<newline>  ''))
   \<and> generateComponentHTMLContent c b cl =
       ''\<newline>      <form #form="ngForm" (ngSubmit)="onSubmit(form)" class="'' @ layoutClass b cl @ ''">\<newline>        '' @
       join [] (map fieldHTML (comp_fields c)) @
       ''\<newline>        <button type="submit" class="btn btn-primary">Submit</button>\<newline>      </form>\<newline>    ''
   \<and> fieldColumn cls f =
       ''<div class="'' @ cls @ ''"><label for="'' @ field_name f @ ''">'' @ capitalize (field_name f) @
       ''</label>\<newline><input id="'' @ field_name f @ ''" formControlName="'' @ field_name f @
       ''" type="text" class="form-control" />\<newline><div *ngIf="form.controls['' @ [CHR 0x27] @
       field_name f @ [CHR 0x27] @ ''].errors" class="text-danger">Invalid '' @ field_name f @
       ''</div></div>''
   \<and> generateComponentHTMLContent (c\<lparr>buttons := bs'\<rparr>) b cl = generateComponentHTMLContent c b cl\<close>
proof -
  note 1 = component_markup_text [where c = c and q = q and cl = cl and b = b]
  have 2: \<open>generateComponentHTML q c cl b =
         Inr (''\<newline><div class="container">\<newline>  <form [formGroup]="form" (ngSubmit)="onSubmit()" class="row">\<newline>    '' @
              join ''\<newline>'' (map (fieldColumn (columnClassOf q cl b)) (comp_fields c)) @
              ''\<newline>    <div class="w-100"></div>\<newline>    \<newline>  </form>\<newline></div>\<newline>  '')\<close>
    if "buttons c = Some []"
    using component_markup_text [OF that, where q = q and cl = cl and b = b] by simp
  note 3 = template_markup_text [where c = c and b = b and cl = cl]
  have 4: "generateComponentHTMLContent (c\<lparr>buttons := bs'\<rparr>) b cl = generateComponentHTMLContent c b cl"
    by (simp add: generateComponentHTMLContent_def)
  note 5 = fieldColumn_text [where cls = cls and f = f]
  show ?thesis
    using 1 2 3 4 5 by blast
qed

theorem declared_buttons_markup_witness:
  \<open>buttons plainComponent = Some []
   \<and> generateComponentHTML show_int plainComponent 2 True =
       Inr (''\<newline><div class="container">\<newline>  <form [formGroup]="form" (ngSubmit)="onSubmit()" class="row">\<newline>    <div class="col-md-6"><label for="bio">Bio</label>\<newline><input id="bio" formControlName="bio" type="text" class="form-control" />\<newline><div *ngIf="form.controls['bio'].errors" class="text-danger">Invalid bio</div></div>\<newline>    <div class="w-100"></div>\<newline>    \<newline>  </form>\<newline></div>\<newline>  '')
   \<and> buttons formComponent = Some [''Submit'', ''Reset'']
   \<and> generateComponentHTML show_int formComponent 2 True =
       Inr (''\<newline><div class="container">\<newline>  <form [formGroup]="form" (ngSubmit)="onSubmit()" class="row">\<newline>    '' @
            join ''\<newline>'' (map (fieldColumn ''col-md-6'') [usernameField, bioField]) @
            ''\<newline>    <div class="w-100"></div>\<newline>    <button type="button" class="btn btn-primary">Submit</button>\<newline><button type="button" class="btn btn-primary">Reset</button>\<newline>  </form>\<newline></div>\<newline>  '')\<close>
proof -
  have a: "buttons plainComponent = Some []"
    by (simp add: plainComponent_def)
  have f: "buttons formComponent = Some [''Submit'', ''Reset'']"
    by (simp add: formComponent_def)
  have pf: "comp_fields plainComponent = [bioField]" by (simp add: plainComponent_def)
  have ff: "comp_fields formComponent = [usernameField, bioField]" by (simp add: formComponent_def)
  have bn: "field_name bioField = ''bio''" by (simp add: bioField_def)
  from declared_buttons_markup [where c = plainComponent and q = show_int and cl = 2
      and b = True and bs' = None and cls = "[]" and f = bioField] a
  have \<open>generateComponentHTML show_int plainComponent 2 True =
         Inr (''\<newline><div class="container">\<newline>  <form [formGroup]="form" (ngSubmit)="onSubmit()" class="row">\<newline>    '' @
              join ''\<newline>'' (map (fieldColumn (columnClassOf show_int 2 True)) (comp_fields plainComponent)) @
              ''\<newline>    <div class="w-100"></div>\<newline>    \<newline>  </form>\<newline></div>\<newline>  '')\<close>
    by blast
  then have 1: \<open>generateComponentHTML show_int plainComponent 2 True =
       Inr (''\<newline><div class="container">\<newline>  <form [formGroup]="form" (ngSubmit)="onSubmit()" class="row">\<newline>    <div class="col-md-6"><label for="bio">Bio</label>\<newline><input id="bio" formControlName="bio" type="text" class="form-control" />\<newline><div *ngIf="form.controls['bio'].errors" class="text-danger">Invalid bio</div></div>\<newline>    <div class="w-100"></div>\<newline>    \<newline>  </form>\<newline></div>\<newline>  '')\<close>
    unfolding pf column_class_example
    by (simp add: fieldColumn_text bn capital_examples)
  from declared_buttons_markup [where c = formComponent and q = show_int and cl = 2
      and b = True and bs' = None and cls = "[]" and f = bioField] f
  have \<open>generateComponentHTML show_int formComponent 2 True =
         Inr (''\<newline><div class="container">\<newline>  <form [formGroup]="form" (ngSubmit)="onSubmit()" class="row">\<newline>    '' @
              join ''\<newline>'' (map (fieldColumn (columnClassOf show_int 2 True)) (comp_fields formComponent)) @
              ''\<newline>    <div class="w-100"></div>\<newline>    '' @
              join ''\<newline>'' (map (\<lambda>l. ''<button type="button" class="btn btn-primary">'' @ l @ ''</button>'') [''Submit'', ''Reset'']) @
              ''\<newline>  </form>\<newline></div>\<newline>  '')\<close>
    by blast
  then have 2: \<open>generateComponentHTML show_int formComponent 2 True =
       Inr (''\<newline><div class="container">\<newline>  <form [formGroup]="form" (ngSubmit)="onSubmit()" class="row">\<newline>    '' @
            join ''\<newline>'' (map (fieldColumn ''col-md-6'') [usernameField, bioField]) @
            ''\<newline>    <div class="w-100"></div>\<newline>    <button type="button" class="btn btn-primary">Submit</button>\<newline><button type="button" class="btn btn-primary">Reset</button>\<newline>  </form>\<newline></div>\<newline>  '')\<close>
    unfolding ff column_class_example by simp
  show ?thesis
    using a 1 f 2 by blast
qed

text \<open>
  C5 as stated fails: a component that declares no buttons gets no button and no
  \<open>Submit\<close> action from the command-line flow, and a component that declares
  \<open>Submit\<close> and \<open>Reset\<close> gets no \<open>Reset\<close> button from the template flow.
\<close>

theorem default_submit_counterexample:
  \<open>buttons plainComponent = Some []
   \<and> \<not> isl (generateComponentHTML show_int plainComponent 2 True)
   \<and> \<not> sublist ''<button'' (projr (generateComponentHTML show_int plainComponent 2 True))
   \<and> \<not> sublist ''Submit</button>'' (projr (generateComponentHTML show_int plainComponent 2 True))
   \<and> buttons formComponent = Some [''Submit'', ''Reset'']
   \<and> \<not> sublist ''Reset'' (generateComponentHTMLContent formComponent True 2)\<close>
  by code_simp

section \<open>Aborted runs\<close>

lemma written_append: "written (xs @ ys) = written xs @ written ys"
  by (induction xs rule: written.induct) simp_all

lemma run_empty_components:
  "components spec = [] \<Longrightarrow>
     generateAngularProjectWithTSMorph spec b cl fs = (Threw TypeError, emptyDirSync (projectName spec) fs)"
  by (simp add: generateAngularProjectWithTSMorph_def Let_def generateAppRoutingModuleContent_def)

lemma cli_skeleton_failure:
  "\<not> execSync_ok h (newProjectCommand (projectName spec)) \<Longrightarrow>
     generateAngularProjectWithTSMorph_cli h spec b cl =
       (Threw (ExecError (newProjectCommand (projectName spec))),
        [Exec (newProjectCommand (projectName spec))])"
  by (simp add: generateAngularProjectWithTSMorph_cli_def Let_def)

lemma loop_abort:
  assumes "\<forall>x \<in> set pre. execSync_ok h (generateComponentCommand x) \<and> buttons x \<noteq> None"
    and "\<not> execSync_ok h (generateComponentCommand c)"
  shows "fst (componentsLoop h pp b cl (pre @ c # post)) = Threw (ExecError (generateComponentCommand c))
       \<and> written (snd (componentsLoop h pp b cl (pre @ c # post)))
           = concat (map (\<lambda>x. [cliComponentPath pp x, cliComponentHtmlPath pp x]) pre)"
  using assms(1)
proof (induction pre)
  case Nil
  then show ?case using assms(2) by (simp add: Let_def)
next
  case (Cons x pre)
  then obtain bs where bs: "buttons x = Some bs" by auto
  have ok: "execSync_ok h (generateComponentCommand x)" using Cons.prems by simp
  obtain html where html: "generateComponentHTML (quotientText h) x cl b = Inr html"
    by (simp add: generateComponentHTML_def Let_def bs)
  have ih: "fst (componentsLoop h pp b cl (pre @ c # post)) = Threw (ExecError (generateComponentCommand c))
       \<and> written (snd (componentsLoop h pp b cl (pre @ c # post)))
           = concat (map (\<lambda>x. [cliComponentPath pp x, cliComponentHtmlPath pp x]) pre)"
    using Cons by simp
  obtain out log where r: "componentsLoop h pp b cl (pre @ c # post) = (out, log)"
    by (cases "componentsLoop h pp b cl (pre @ c # post)")
  show ?case
    using ih by (simp add: Let_def ok html r)
qed

text \<open>
  C8 (amended). A fatal condition aborts the run where it occurs and nothing is written
  after it. An empty component list aborts the template flow before any file is written,
  and a failed skeleton creation aborts the command-line flow before any file is written.
  A failed component generation aborts the command-line flow with the class and markup
  files of every component before it already written.
\<close>

theorem abort_keeps_earlier_artifacts:
  "(components spec = [] \<longrightarrow>
      generateAngularProjectWithTSMorph spec b cl fs
        = (Threw TypeError, emptyDirSync (projectName spec) fs))
   \<and> (\<not> execSync_ok h (newProjectCommand (projectName spec)) \<longrightarrow>
      fst (generateAngularProjectWithTSMorph_cli h spec b cl)
        = Threw (ExecError (newProjectCommand (projectName spec)))
      \<and> written (snd (generateAngularProjectWithTSMorph_cli h spec b cl)) = [])
   \<and> (execSync_ok h (newProjectCommand (projectName spec))
      \<and> (b \<longrightarrow> execSync_ok h installBootstrapCommand \<and> angularJson_ok h)
      \<and> components spec = pre @ c # post
      \<and> (\<forall>x \<in> set pre. execSync_ok h (generateComponentCommand x) \<and> buttons x \<noteq> None)
      \<and> \<not> execSync_ok h (generateComponentCommand c) \<longrightarrow>
      fst (generateAngularProjectWithTSMorph_cli h spec b cl)
        = Threw (ExecError (generateComponentCommand c))
      \<and> written (snd (generateAngularProjectWithTSMorph_cli h spec b cl))
        = concat (map (\<lambda>x. [cliComponentPath (path_join [cwd h, projectName spec]) x,
                              cliComponentHtmlPath (path_join [cwd h, projectName spec]) x]) pre))"
proof -
  let ?pp = "path_join [cwd h, projectName spec]"
  have 3: "fst (generateAngularProjectWithTSMorph_cli h spec b cl)
        = Threw (ExecError (generateComponentCommand c))
      \<and> written (snd (generateAngularProjectWithTSMorph_cli h spec b cl))
        = concat (map (\<lambda>x. [cliComponentPath ?pp x, cliComponentHtmlPath ?pp x]) pre)"
    if h: "execSync_ok h (newProjectCommand (projectName spec))
      \<and> (b \<longrightarrow> execSync_ok h installBootstrapCommand \<and> angularJson_ok h)
      \<and> components spec = pre @ c # post
      \<and> (\<forall>x \<in> set pre. execSync_ok h (generateComponentCommand x) \<and> buttons x \<noteq> None)
      \<and> \<not> execSync_ok h (generateComponentCommand c)"
  proof -
    from h have a: "\<forall>x \<in> set pre. execSync_ok h (generateComponentCommand x) \<and> buttons x \<noteq> None"
      and n: "\<not> execSync_ok h (generateComponentCommand c)" by blast+
    obtain out log where r: "componentsLoop h ?pp b cl (pre @ c # post) = (out, log)"
      by (cases "componentsLoop h ?pp b cl (pre @ c # post)")
    from loop_abort [OF a n, of ?pp b cl post] r
    have o: "out = Threw (ExecError (generateComponentCommand c))"
      and w: "written log = concat (map (\<lambda>x. [cliComponentPath ?pp x, cliComponentHtmlPath ?pp x]) pre)"
      by simp_all
    from h have e1: "execSync_ok h (newProjectCommand (projectName spec))"
      and e2: "b \<Longrightarrow> execSync_ok h installBootstrapCommand"
      and e3: "b \<Longrightarrow> angularJson_ok h"
      and e4: "components spec = pre @ c # post" by blast+
    have eb: "\<not> (b \<and> \<not> execSync_ok h installBootstrapCommand)" "\<not> (b \<and> \<not> angularJson_ok h)"
      using e2 e3 by blast+
    show ?thesis
      unfolding generateAngularProjectWithTSMorph_cli_def Let_def e4 r
      using e1 eb by (auto simp add: o w written_append)
  qed
  show ?thesis
    using run_empty_components [of spec b cl fs] cli_skeleton_failure [of h spec b cl] 3
    by simp
qed

theorem abort_keeps_earlier_artifacts_witness:
  "\<not> execSync_ok failingHost (generateComponentCommand aboutComponent)
   \<and> fst (generateAngularProjectWithTSMorph_cli failingHost exampleSpec False 2)
       = Threw (ExecError (generateComponentCommand aboutComponent))
   \<and> written (snd (generateAngularProjectWithTSMorph_cli failingHost exampleSpec False 2))
       = [cliComponentPath (path_join [cwd failingHost, projectName exampleSpec]) formComponent,
          cliComponentHtmlPath (path_join [cwd failingHost, projectName exampleSpec]) formComponent]"
proof -
  have n: "\<not> execSync_ok failingHost (generateComponentCommand aboutComponent)"
    by (simp add: failingHost_def generateComponentCommand_def aboutComponent_def)
  have h: "execSync_ok failingHost (newProjectCommand (projectName exampleSpec))
      \<and> (False \<longrightarrow> execSync_ok failingHost installBootstrapCommand \<and> angularJson_ok failingHost)
      \<and> components exampleSpec = [formComponent] @ aboutComponent # []
      \<and> (\<forall>x \<in> set [formComponent]. execSync_ok failingHost (generateComponentCommand x) \<and> buttons x \<noteq> None)
      \<and> \<not> execSync_ok failingHost (generateComponentCommand aboutComponent)"
    by (simp add: failingHost_def newProjectCommand_def exampleSpec_def generateComponentCommand_def
        formComponent_def aboutComponent_def)
  show ?thesis
    using abort_keeps_earlier_artifacts [of exampleSpec False 2 Map.empty failingHost
        "[formComponent]" aboutComponent "[]"] h n
    by simp
qed

text \<open>
  C8 as stated fails: on the example document, when generating the second component
  fails, the run aborts after the class and markup files of the first component were
  written.
\<close>

theorem all_or_nothing_counterexample:
  "fst (generateAngularProjectWithTSMorph_cli failingHost exampleSpec False 2)
     = Threw (ExecError ''ng generate component About'')
   \<and> written (snd (generateAngularProjectWithTSMorph_cli failingHost exampleSpec False 2))
     = [''/work/my-angular-app/src/app/Register/Register.component.ts'',
        ''/work/my-angular-app/src/app/Register/Register.component.html'']
   \<and> fst (generateAngularProjectWithTSMorph_cli okHost exampleSpec False 2) = Threw TypeError
   \<and> written (snd (generateAngularProjectWithTSMorph_cli okHost exampleSpec False 2))
     = [''/work/my-angular-app/src/app/Register/Register.component.ts'',
        ''/work/my-angular-app/src/app/Register/Register.component.html'',
        ''/work/my-angular-app/src/app/About/About.component.ts'']"
  by code_simp

end
